theory Spec2Isabelle
  imports Main "HOL-Library.Log_Nat" "HOL-Library.Sublist"
begin

section \<open>JavaScript values\<close>

text \<open>
  The gateway is \<^verbatim>\<open>backend/server.js\<close>. Its handler works on values produced by
  \<^verbatim>\<open>JSON.parse\<close>: the request body and the bodies of the upstream replies. A number is
  an IEEE binary64 value; \<open>Fin q\<close> is the finite double with the rational value \<open>q\<close>
  (\<open>Fin 0\<close> is \<open>+0\<close>). \<open>None\<close> of type \<open>jsval\<close> is \<^verbatim>\<open>undefined\<close>.
  An object keeps its members in source order; \<^verbatim>\<open>JSON.parse\<close> lets the last of two
  equal keys win.
\<close>

datatype jsnum = Fin rat | NegZero | PosInf | NegInf | NaN

datatype json =
    JNull
  | JBool bool
  | JNum jsnum
  | JStr string
  | JArr "json list"
  | JObj "(string \<times> json) list"

type_synonym jsval = "json option"

datatype js_type = TUndefined | TObject | TBoolean | TNumber | TString

datatype thrown =
    Error string
  | TypeError
  | SyntaxError
  | NetworkError string

fun num_truthy :: "jsnum \<Rightarrow> bool" where
  "num_truthy (Fin q) = (q \<noteq> 0)"
| "num_truthy NegZero = False"
| "num_truthy PosInf = True"
| "num_truthy NegInf = True"
| "num_truthy NaN = False"

fun truthy :: "jsval \<Rightarrow> bool" where
  "truthy None = False"
| "truthy (Some JNull) = False"
| "truthy (Some (JBool b)) = b"
| "truthy (Some (JNum n)) = num_truthy n"
| "truthy (Some (JStr s)) = (s \<noteq> [])"
| "truthy (Some (JArr xs)) = True"
| "truthy (Some (JObj kvs)) = True"

fun typeof :: "jsval \<Rightarrow> js_type" where
  "typeof None = TUndefined"
| "typeof (Some JNull) = TObject"
| "typeof (Some (JBool b)) = TBoolean"
| "typeof (Some (JNum n)) = TNumber"
| "typeof (Some (JStr s)) = TString"
| "typeof (Some (JArr xs)) = TObject"
| "typeof (Some (JObj kvs)) = TObject"

text \<open>
  Reading a named member, \<^verbatim>\<open>v.name\<close>. The names the handler reads (\<^verbatim>\<open>responses\<close>,
  \<^verbatim>\<open>provider\<close>, \<^verbatim>\<open>error\<close>, \<^verbatim>\<open>message\<close>, \<^verbatim>\<open>content\<close>, \<^verbatim>\<open>text\<close>, \<^verbatim>\<open>usage\<close>,
  \<^verbatim>\<open>choices\<close> and the token counters) are on no built-in prototype, so a string, number,
  boolean or array answers \<^verbatim>\<open>undefined\<close>; \<^verbatim>\<open>null\<close> and \<^verbatim>\<open>undefined\<close> throw.
\<close>

definition own_property :: "(string \<times> json) list \<Rightarrow> string \<Rightarrow> jsval" where
  "own_property kvs k = map_of (rev kvs) k"

fun get_prop :: "jsval \<Rightarrow> string \<Rightarrow> thrown + jsval" where
  "get_prop None k = Inl TypeError"
| "get_prop (Some JNull) k = Inl TypeError"
| "get_prop (Some (JObj kvs)) k = Inr (own_property kvs k)"
| "get_prop (Some v) k = Inr None"

text \<open>Reading \<^verbatim>\<open>v[0]\<close>: the first element of an array, the first character of a string.\<close>

fun get_first :: "jsval \<Rightarrow> thrown + jsval" where
  "get_first None = Inl TypeError"
| "get_first (Some JNull) = Inl TypeError"
| "get_first (Some (JArr xs)) = Inr (case xs of [] \<Rightarrow> None | x # _ \<Rightarrow> Some x)"
| "get_first (Some (JStr s)) = Inr (case s of [] \<Rightarrow> None | c # _ \<Rightarrow> Some (JStr [c]))"
| "get_first (Some (JObj kvs)) = Inr (own_property kvs ''0'')"
| "get_first (Some v) = Inr None"

text \<open>Optional chaining \<^verbatim>\<open>v?.name\<close>.\<close>

fun get_optional :: "jsval \<Rightarrow> string \<Rightarrow> jsval" where
  "get_optional None k = None"
| "get_optional (Some JNull) k = None"
| "get_optional (Some (JObj kvs)) k = own_property kvs k"
| "get_optional (Some v) k = None"

definition and_then :: "thrown + 'a \<Rightarrow> ('a \<Rightarrow> thrown + 'b) \<Rightarrow> thrown + 'b" where
  "and_then r f = (case r of Inl e \<Rightarrow> Inl e | Inr x \<Rightarrow> f x)"

section \<open>Binary64 arithmetic\<close>

text \<open>
  \<open>round_double\<close> is round-to-nearest, ties-to-even, onto binary64: 53 significant
  bits, least exponent \<open>-1022\<close> (below it the spacing stays \<open>2 ^ -1074\<close>), overflow to
  infinity from \<open>2 ^ 1024\<close> on.
\<close>

definition pow2 :: "int \<Rightarrow> rat" where
  "pow2 k = (if 0 \<le> k then 2 ^ nat k else 1 / 2 ^ nat (- k))"

definition ilog2 :: "rat \<Rightarrow> int" where
  "ilog2 q = (if 1 \<le> q then bitlen \<lfloor>q\<rfloor> - 1 else - bitlen (\<lceil>1 / q\<rceil> - 1))"

definition round_half_even :: "rat \<Rightarrow> int" where
  "round_half_even x =
     (let f = \<lfloor>x\<rfloor>; r = x - of_int f
      in if r < 1 / 2 then f else if 1 / 2 < r then f + 1 else if even f then f else f + 1)"

definition round_double :: "rat \<Rightarrow> jsnum" where
  "round_double q =
     (if q = 0 then Fin 0
      else let a = \<bar>q\<bar>;
               e = max (ilog2 a) (- 1022);
               u = pow2 (e - 52);
               m = of_int (round_half_even (a / u)) * u
           in if pow2 1024 \<le> m then (if 0 < q then PosInf else NegInf)
              else if m = 0 then (if 0 < q then Fin 0 else NegZero)
              else Fin (if 0 < q then m else - m))"

fun is_nan :: "jsnum \<Rightarrow> bool" where
  "is_nan NaN = True"
| "is_nan n = False"

fun is_inf :: "jsnum \<Rightarrow> bool" where
  "is_inf PosInf = True"
| "is_inf NegInf = True"
| "is_inf n = False"

fun is_zero :: "jsnum \<Rightarrow> bool" where
  "is_zero (Fin q) = (q = 0)"
| "is_zero NegZero = True"
| "is_zero n = False"

fun negative :: "jsnum \<Rightarrow> bool" where
  "negative (Fin q) = (q < 0)"
| "negative NegZero = True"
| "negative NegInf = True"
| "negative n = False"

fun magnitude :: "jsnum \<Rightarrow> rat" where
  "magnitude (Fin q) = q"
| "magnitude n = 0"

definition signed_zero :: "bool \<Rightarrow> jsnum" where
  "signed_zero neg = (if neg then NegZero else Fin 0)"

definition signed_inf :: "bool \<Rightarrow> jsnum" where
  "signed_inf neg = (if neg then NegInf else PosInf)"

definition js_div :: "jsnum \<Rightarrow> jsnum \<Rightarrow> jsnum" where
  "js_div x y =
     (if is_nan x \<or> is_nan y then NaN
      else if is_inf x \<and> is_inf y then NaN
      else if is_zero x \<and> is_zero y then NaN
      else if is_inf x \<or> is_zero y then signed_inf (negative x \<noteq> negative y)
      else if is_inf y \<or> is_zero x then signed_zero (negative x \<noteq> negative y)
      else round_double (magnitude x / magnitude y))"

definition js_mul :: "jsnum \<Rightarrow> jsnum \<Rightarrow> jsnum" where
  "js_mul x y =
     (if is_nan x \<or> is_nan y then NaN
      else if (is_inf x \<and> is_zero y) \<or> (is_zero x \<and> is_inf y) then NaN
      else if is_inf x \<or> is_inf y then signed_inf (negative x \<noteq> negative y)
      else if is_zero x \<or> is_zero y then signed_zero (negative x \<noteq> negative y)
      else round_double (magnitude x * magnitude y))"

definition js_plus :: "jsnum \<Rightarrow> jsnum \<Rightarrow> jsnum" where
  "js_plus x y =
     (if is_nan x \<or> is_nan y then NaN
      else if is_inf x \<and> is_inf y then (if negative x = negative y then x else NaN)
      else if is_inf x then x
      else if is_inf y then y
      else if is_zero x \<and> is_zero y then signed_zero (negative x \<and> negative y)
      else round_double (magnitude x + magnitude y))"

section \<open>Conversions\<close>

text \<open>
  \<^verbatim>\<open>String(v)\<close> and \<^verbatim>\<open>Number(v)\<close> on parsed JSON. Printing a number and reading one
  from a string are the engine's (\<open>number_to_string\<close>, \<open>string_to_number\<close> below), taken as
  parameters. An array joins its elements with commas, \<^verbatim>\<open>null\<close> elements printing as
  nothing. A plain object prints as \<^verbatim>\<open>[object Object]\<close>, unless it has a member named
  \<^verbatim>\<open>toString\<close> of its own: that member is no function, and the conversion throws.
\<close>

fun join :: "string \<Rightarrow> string list \<Rightarrow> string" where
  "join sep [] = []"
| "join sep [x] = x"
| "join sep (x # y # ys) = x @ sep @ join sep (y # ys)"

fun to_string :: "(jsnum \<Rightarrow> string) \<Rightarrow> json \<Rightarrow> thrown + string"
  and elements_to_strings :: "(jsnum \<Rightarrow> string) \<Rightarrow> json list \<Rightarrow> thrown + string list" where
  "to_string n2s JNull = Inr ''null''"
| "to_string n2s (JBool b) = Inr (if b then ''true'' else ''false'')"
| "to_string n2s (JNum n) = Inr (n2s n)"
| "to_string n2s (JStr s) = Inr s"
| "to_string n2s (JArr xs) =
     (case elements_to_strings n2s xs of Inl e \<Rightarrow> Inl e | Inr ss \<Rightarrow> Inr (join '','' ss))"
| "to_string n2s (JObj kvs) =
     (if own_property kvs ''toString'' \<noteq> None then Inl TypeError else Inr ''[object Object]'')"
| "elements_to_strings n2s [] = Inr []"
| "elements_to_strings n2s (x # xs) =
     (case (if x = JNull then Inr [] else to_string n2s x) of
        Inl e \<Rightarrow> Inl e
      | Inr s \<Rightarrow> (case elements_to_strings n2s xs of Inl e \<Rightarrow> Inl e | Inr ss \<Rightarrow> Inr (s # ss)))"

fun to_primitive :: "(jsnum \<Rightarrow> string) \<Rightarrow> json \<Rightarrow> thrown + json" where
  "to_primitive n2s (JArr xs) = and_then (to_string n2s (JArr xs)) (\<lambda>s. Inr (JStr s))"
| "to_primitive n2s (JObj kvs) = and_then (to_string n2s (JObj kvs)) (\<lambda>s. Inr (JStr s))"
| "to_primitive n2s v = Inr v"

fun to_number :: "(jsnum \<Rightarrow> string) \<Rightarrow> (string \<Rightarrow> jsnum) \<Rightarrow> json \<Rightarrow> thrown + jsnum" where
  "to_number n2s s2n JNull = Inr (Fin 0)"
| "to_number n2s s2n (JBool b) = Inr (if b then Fin 1 else Fin 0)"
| "to_number n2s s2n (JNum n) = Inr n"
| "to_number n2s s2n (JStr s) = Inr (s2n s)"
| "to_number n2s s2n v = and_then (to_string n2s v) (\<lambda>s. Inr (s2n s))"

fun is_JStr :: "json \<Rightarrow> bool" where
  "is_JStr (JStr s) = True"
| "is_JStr v = False"

text \<open>The operator \<^verbatim>\<open>+\<close>: concatenation as soon as one side is a string, else addition.\<close>

definition js_add :: "(jsnum \<Rightarrow> string) \<Rightarrow> (string \<Rightarrow> jsnum) \<Rightarrow> json \<Rightarrow> json \<Rightarrow> thrown + json" where
  "js_add n2s s2n a b =
     and_then (to_primitive n2s a) (\<lambda>pa.
     and_then (to_primitive n2s b) (\<lambda>pb.
       if is_JStr pa \<or> is_JStr pb
       then and_then (to_string n2s pa) (\<lambda>sa.
            and_then (to_string n2s pb) (\<lambda>sb. Inr (JStr (sa @ sb))))
       else and_then (to_number n2s s2n pa) (\<lambda>na.
            and_then (to_number n2s s2n pb) (\<lambda>nb. Inr (JNum (js_plus na nb))))))"

text \<open>The decimal form of a status code, as a template literal prints it.\<close>

definition digit_char :: "nat \<Rightarrow> char" where
  "digit_char d =
     (if d = 0 then CHR ''0'' else if d = 1 then CHR ''1'' else if d = 2 then CHR ''2''
      else if d = 3 then CHR ''3'' else if d = 4 then CHR ''4'' else if d = 5 then CHR ''5''
      else if d = 6 then CHR ''6'' else if d = 7 then CHR ''7'' else if d = 8 then CHR ''8''
      else CHR ''9'')"

fun show_nat :: "nat \<Rightarrow> string" where
  "show_nat n =
     (if n < 10 then [digit_char n] else show_nat (n div 10) @ [digit_char (n mod 10)])"

declare show_nat.simps [simp del]

section \<open>Provider registry\<close>

record provider_config =
  name :: string
  apiUrl :: string
  model :: string
  costPer1M_input :: jsnum
  costPer1M_output :: jsnum
  envKey :: string

text \<open>
  The table \<^verbatim>\<open>PROVIDERS\<close>, in source order. The literal \<^verbatim>\<open>0.80\<close> denotes the double
  nearest to \<open>4/5\<close>; the other prices are whole numbers.
\<close>

definition PROVIDERS :: "(string \<times> provider_config) list" where
  "PROVIDERS =
     [(''claude'',
        \<lparr>name = ''Claude (Direct)'',
         apiUrl = ''https://api.anthropic.com/v1/messages'',
         model = ''claude-sonnet-4-20250514'',
         costPer1M_input = Fin 3, costPer1M_output = Fin 15,
         envKey = ''ANTHROPIC_API_KEY''\<rparr>),
      (''openrouter_claude'',
        \<lparr>name = ''Claude (via OpenRouter)'',
         apiUrl = ''https://openrouter.ai/api/v1/chat/completions'',
         model = ''anthropic/claude-sonnet-4'',
         costPer1M_input = Fin 3, costPer1M_output = Fin 15,
         envKey = ''OPENROUTER_API_KEY''\<rparr>),
      (''openrouter_gpt4'',
        \<lparr>name = ''GPT-4 Turbo (via OpenRouter)'',
         apiUrl = ''https://openrouter.ai/api/v1/chat/completions'',
         model = ''openai/gpt-4-turbo'',
         costPer1M_input = Fin 10, costPer1M_output = Fin 30,
         envKey = ''OPENROUTER_API_KEY''\<rparr>),
      (''openrouter_haiku'',
        \<lparr>name = ''Claude Haiku (via OpenRouter)'',
         apiUrl = ''https://openrouter.ai/api/v1/chat/completions'',
         model = ''anthropic/claude-3.5-haiku'',
         costPer1M_input = Fin (3602879701896397 / 4503599627370496), costPer1M_output = Fin 4,
         envKey = ''OPENROUTER_API_KEY''\<rparr>)]"

text \<open>
  \<^verbatim>\<open>PROVIDERS[provider]\<close> is an ordinary member read on an object literal: a name that is
  not in the table is still found when \<^verbatim>\<open>Object.prototype\<close> has it, and what is found
  there (a function, or the prototype itself) is truthy and has none of a descriptor's
  members.
\<close>

definition object_prototype_keys :: "string list" where
  "object_prototype_keys =
     [''constructor'', ''__defineGetter__'', ''__defineSetter__'', ''hasOwnProperty'',
      ''__lookupGetter__'', ''__lookupSetter__'', ''isPrototypeOf'', ''propertyIsEnumerable'',
      ''toString'', ''valueOf'', ''__proto__'', ''toLocaleString'']"

datatype provider_lookup = Config provider_config | Inherited | Missing

definition lookup_provider :: "string \<Rightarrow> provider_lookup" where
  "lookup_provider k =
     (case map_of PROVIDERS k of
        Some c \<Rightarrow> Config c
      | None \<Rightarrow> if k \<in> set object_prototype_keys then Inherited else Missing)"

section \<open>Requests, replies and the runtime\<close>

record http_request =
  url :: string
  http_method :: string
  headers :: "(string \<times> string) list"
  body_model :: string
  body_max_tokens :: nat
  body_prompt :: string

text \<open>
  What \<^verbatim>\<open>fetch\<close> gives: a rejected promise, or a status with the body as
  \<^verbatim>\<open>response.json()\<close> reads it (\<open>None\<close> when the body is not JSON).
\<close>

datatype fetch_result = Rejected string | Responded nat "json option"

text \<open>
  The message of a caught exception is its own text; for an exception the engine raises
  (a \<^verbatim>\<open>TypeError\<close>, the \<^verbatim>\<open>SyntaxError\<close> of \<^verbatim>\<open>response.json()\<close>) the text is the
  engine's, which is never empty.
\<close>

datatype message = Text string | EngineMessage thrown

record success_body =
  analysis :: jsval
  meta_provider :: string
  meta_model :: string
  tokens_input :: json
  tokens_output :: json
  tokens_total :: json
  cost_input :: jsnum
  cost_output :: jsnum
  cost_total :: jsnum
  duration :: int
  timestamp :: int

datatype response_body =
    ErrorBody string message
  | FailureBody string message int
  | SuccessBody success_body

record response =
  status :: nat
  body :: response_body

datatype log_entry =
    MissingApiKey string
  | Processing string provider_lookup
  | Completed string int jsnum
  | AnalysisError thrown

text \<open>
  Everything the handler reads from outside: the engine's number printing and parsing, the
  prompt builder, \<^verbatim>\<open>process.env\<close>, the network, and the clock at the start and at the
  end of the request.
\<close>

record runtime =
  number_to_string :: "jsnum \<Rightarrow> string"
  string_to_number :: "string \<Rightarrow> jsnum"
  build_prompt :: "jsval \<Rightarrow> string"
  env :: "string \<Rightarrow> string option"
  fetch :: "http_request \<Rightarrow> fetch_result"
  start_time :: int
  end_time :: int

record outcome =
  reply :: response
  calls :: "http_request list"
  logged :: "log_entry list"

definition env_truthy :: "string option \<Rightarrow> bool" where
  "env_truthy v = (case v of None \<Rightarrow> False | Some s \<Rightarrow> s \<noteq> [])"

definition or_default :: "string option \<Rightarrow> string \<Rightarrow> string" where
  "or_default v d = (case v of None \<Rightarrow> d | Some s \<Rightarrow> if s = [] then d else s)"

section \<open>The origin guard and the error handler\<close>

text \<open>
  \<^verbatim>\<open>allowedOrigins\<close> is three fixed origins and \<^verbatim>\<open>process.env.FRONTEND_URL\<close>, with the
  falsy entries filtered out. The \<^verbatim>\<open>origin\<close> callback of the \<^verbatim>\<open>cors\<close> middleware allows
  or fails with an \<^verbatim>\<open>Error\<close>; the middleware hands that error to \<^verbatim>\<open>next\<close>, and the
  only error-handling middleware of the application is the one at the end of the file.
\<close>

definition allowedOrigins :: "(string \<Rightarrow> string option) \<Rightarrow> string list" where
  "allowedOrigins e =
     map the (filter env_truthy
       [Some ''https://godagoo.github.io'', Some ''http://localhost:3000'',
        Some ''http://127.0.0.1:3000'', e ''FRONTEND_URL''])"

datatype origin_decision = Allowed | Denied thrown

definition origin_callback :: "(string \<Rightarrow> string option) \<Rightarrow> string option \<Rightarrow> origin_decision" where
  "origin_callback e origin =
     (case origin of
        None \<Rightarrow> Allowed
      | Some orig \<Rightarrow>
          if orig = [] \<or> orig \<in> set (allowedOrigins e) then Allowed
          else Denied (Error ''Not allowed by CORS''))"

fun err_message :: "thrown \<Rightarrow> message" where
  "err_message (Error m) = Text m"
| "err_message (NetworkError m) = Text m"
| "err_message e = EngineMessage e"

definition error_handler :: "(string \<Rightarrow> string option) \<Rightarrow> thrown \<Rightarrow> response" where
  "error_handler e err =
     \<lparr>status = 500,
      body = ErrorBody ''Internal server error''
               (if e ''NODE_ENV'' = Some ''development'' then err_message err
                else Text ''An unexpected error occurred'')\<rparr>"

text \<open>The guard as a request sees it: \<open>None\<close> when the request goes on to the next middleware.\<close>

definition origin_guard :: "(string \<Rightarrow> string option) \<Rightarrow> string option \<Rightarrow> response option" where
  "origin_guard e origin =
     (case origin_callback e origin of
        Allowed \<Rightarrow> None
      | Denied err \<Rightarrow> Some (error_handler e err))"

section \<open>The analysis handler\<close>

record normalized =
  analysisText :: jsval
  inputTokens :: json
  outputTokens :: json

datatype branch = ClaudeBranch | OpenRouterBranch

text \<open>\<^verbatim>\<open>v || 0\<close>.\<close>

definition or_zero :: "jsval \<Rightarrow> json" where
  "or_zero v = (case v of None \<Rightarrow> JNum (Fin 0) | Some j \<Rightarrow> if truthy v then j else JNum (Fin 0))"

text \<open>Lines 380 to 383: the reply of the Anthropic messages endpoint.\<close>

definition normalize_message :: "json \<Rightarrow> thrown + normalized" where
  "normalize_message data =
     and_then (get_prop (Some data) ''content'') (\<lambda>content.
     and_then (get_first content) (\<lambda>first.
     and_then (get_prop first ''text'') (\<lambda>txt.
     and_then (get_prop (Some data) ''usage'') (\<lambda>usage.
       Inr \<lparr>analysisText = txt,
            inputTokens = or_zero (get_optional usage ''input_tokens''),
            outputTokens = or_zero (get_optional usage ''output_tokens'')\<rparr>))))"

text \<open>Lines 410 to 413: the reply of a chat-completions endpoint.\<close>

definition normalize_chat :: "json \<Rightarrow> thrown + normalized" where
  "normalize_chat data =
     and_then (get_prop (Some data) ''choices'') (\<lambda>choices.
     and_then (get_first choices) (\<lambda>first.
     and_then (get_prop first ''message'') (\<lambda>msg.
     and_then (get_prop msg ''content'') (\<lambda>txt.
     and_then (get_prop (Some data) ''usage'') (\<lambda>usage.
       Inr \<lparr>analysisText = txt,
            inputTokens = or_zero (get_optional usage ''prompt_tokens''),
            outputTokens = or_zero (get_optional usage ''completion_tokens'')\<rparr>)))))"

fun normalize :: "branch \<Rightarrow> json \<Rightarrow> thrown + normalized" where
  "normalize ClaudeBranch data = normalize_message data"
| "normalize OpenRouterBranch data = normalize_chat data"

text \<open>
  Lines 375 to 378 (and 405 to 408): what is thrown on a reply that is not \<^verbatim>\<open>ok\<close>. A body
  that is not JSON reads as \<^verbatim>\<open>{}\<close>.
\<close>

definition upstream_error :: "(jsnum \<Rightarrow> string) \<Rightarrow> nat \<Rightarrow> json option \<Rightarrow> thrown" where
  "upstream_error n2s st parsed =
     (let errorData = (case parsed of None \<Rightarrow> JObj [] | Some j \<Rightarrow> j)
      in case get_prop (Some errorData) ''error'' of
           Inl e \<Rightarrow> e
         | Inr err \<Rightarrow>
             (let m = get_optional err ''message'';
                  arg = (case m of
                           None \<Rightarrow> JStr (''API error: '' @ show_nat st)
                         | Some j \<Rightarrow> if truthy m then j else JStr (''API error: '' @ show_nat st))
              in case to_string n2s arg of Inl e \<Rightarrow> e | Inr s \<Rightarrow> Error s))"

definition response_ok :: "nat \<Rightarrow> bool" where
  "response_ok st = (200 \<le> st \<and> st \<le> 299)"

definition read_response :: "(jsnum \<Rightarrow> string) \<Rightarrow> branch \<Rightarrow> fetch_result \<Rightarrow> thrown + normalized" where
  "read_response n2s b r =
     (case r of
        Rejected m \<Rightarrow> Inl (NetworkError m)
      | Responded st parsed \<Rightarrow>
          if \<not> response_ok st then Inl (upstream_error n2s st parsed)
          else (case parsed of None \<Rightarrow> Inl SyntaxError | Some data \<Rightarrow> normalize b data))"

definition claude_request :: "provider_config \<Rightarrow> string \<Rightarrow> string \<Rightarrow> http_request" where
  "claude_request c apiKey prompt =
     \<lparr>url = apiUrl c, http_method = ''POST'',
      headers = [(''Content-Type'', ''application/json''), (''x-api-key'', apiKey),
                 (''anthropic-version'', ''2023-06-01'')],
      body_model = model c, body_max_tokens = 4000, body_prompt = prompt\<rparr>"

definition openrouter_request ::
  "(string \<Rightarrow> string option) \<Rightarrow> provider_config \<Rightarrow> string \<Rightarrow> string \<Rightarrow> http_request" where
  "openrouter_request e c apiKey prompt =
     \<lparr>url = apiUrl c, http_method = ''POST'',
      headers = [(''Content-Type'', ''application/json''),
                 (''Authorization'', ''Bearer '' @ apiKey),
                 (''HTTP-Referer'', or_default (e ''FRONTEND_URL'') ''https://godagoo.github.io''),
                 (''X-Title'', ''AI Business Assessment Tool'')],
      body_model = model c, body_max_tokens = 4000, body_prompt = prompt\<rparr>"

fun build_request ::
  "(string \<Rightarrow> string option) \<Rightarrow> branch \<Rightarrow> provider_config \<Rightarrow> string \<Rightarrow> string \<Rightarrow> http_request" where
  "build_request e ClaudeBranch c apiKey prompt = claude_request c apiKey prompt"
| "build_request e OpenRouterBranch c apiKey prompt = openrouter_request e c apiKey prompt"

text \<open>
  Lines 356 and 385: \<^verbatim>\<open>provider === 'claude'\<close>, else \<^verbatim>\<open>provider.startsWith('openrouter_')\<close>.
  Only a string has \<^verbatim>\<open>startsWith\<close>; on anything else the call throws.
\<close>

definition select_branch :: "json \<Rightarrow> thrown + branch option" where
  "select_branch provider =
     (case provider of
        JStr s \<Rightarrow>
          Inr (if s = ''claude'' then Some ClaudeBranch
               else if prefix ''openrouter_'' s then Some OpenRouterBranch
               else None)
      | _ \<Rightarrow> Inl TypeError)"

text \<open>
  The dispatch, with the requests it sends. When neither branch is taken the three
  variables keep what they were declared with. A configuration found on the prototype has
  no \<^verbatim>\<open>apiUrl\<close>: \<^verbatim>\<open>fetch(undefined)\<close> fails before anything is sent.
\<close>

definition dispatch ::
  "runtime \<Rightarrow> json \<Rightarrow> provider_lookup \<Rightarrow> string \<Rightarrow> string \<Rightarrow> (thrown + normalized) \<times> http_request list" where
  "dispatch rt provider providerConfig apiKey prompt =
     (case select_branch provider of
        Inl e \<Rightarrow> (Inl e, [])
      | Inr None \<Rightarrow>
          (Inr \<lparr>analysisText = None, inputTokens = JNum (Fin 0), outputTokens = JNum (Fin 0)\<rparr>, [])
      | Inr (Some b) \<Rightarrow>
          (case providerConfig of
             Config c \<Rightarrow>
               (let req = build_request (env rt) b c apiKey prompt
                in (read_response (number_to_string rt) b (fetch rt req), [req]))
           | _ \<Rightarrow> (Inl TypeError, [])))"

text \<open>Lines 417 to 419.\<close>

definition cost_of :: "jsnum \<Rightarrow> jsnum \<Rightarrow> jsnum" where
  "cost_of tokens price = js_mul (js_div tokens (Fin 1000000)) price"

text \<open>
  Lines 417 to 445: the cost, the log line and the body of the reply. What was found on the
  prototype has no \<^verbatim>\<open>costPer1M\<close>, and reading \<^verbatim>\<open>input\<close> of \<^verbatim>\<open>undefined\<close> throws.
\<close>

definition assemble ::
  "runtime \<Rightarrow> string \<Rightarrow> provider_lookup \<Rightarrow> normalized \<Rightarrow> (thrown + response) \<times> log_entry list" where
  "assemble rt key providerConfig n =
     (case to_number (number_to_string rt) (string_to_number rt) (inputTokens n) of
        Inl e \<Rightarrow> (Inl e, [])
      | Inr i \<Rightarrow>
          (case providerConfig of
             Config c \<Rightarrow>
               (case to_number (number_to_string rt) (string_to_number rt) (outputTokens n) of
                  Inl e \<Rightarrow> (Inl e, [])
                | Inr out \<Rightarrow>
                    (let inputCost = cost_of i (costPer1M_input c);
                         outputCost = cost_of out (costPer1M_output c);
                         totalCost = js_plus inputCost outputCost;
                         dur = end_time rt - start_time rt;
                         entry = Completed key dur totalCost
                     in case js_add (number_to_string rt) (string_to_number rt)
                               (inputTokens n) (outputTokens n) of
                          Inl e \<Rightarrow> (Inl e, [entry])
                        | Inr tot \<Rightarrow>
                            (Inr \<lparr>status = 200,
                                  body = SuccessBody
                                    \<lparr>analysis = analysisText n,
                                     meta_provider = name c, meta_model = model c,
                                     tokens_input = inputTokens n,
                                     tokens_output = outputTokens n,
                                     tokens_total = tot,
                                     cost_input = inputCost, cost_output = outputCost,
                                     cost_total = totalCost,
                                     duration = dur, timestamp = end_time rt\<rparr>\<rparr>,
                             [entry])))
           | _ \<Rightarrow> (Inl TypeError, [])))"

definition config_envKey :: "provider_lookup \<Rightarrow> string" where
  "config_envKey providerConfig =
     (case providerConfig of Config c \<Rightarrow> envKey c | _ \<Rightarrow> ''undefined'')"

text \<open>
  Line 102: \<^verbatim>\<open>const { responses, provider = 'claude' } = req.body\<close>. The default stands in
  for \<^verbatim>\<open>undefined\<close> only.
\<close>

definition destructure :: "json \<Rightarrow> thrown + (jsval \<times> json)" where
  "destructure reqBody =
     and_then (get_prop (Some reqBody) ''responses'') (\<lambda>responses.
     and_then (get_prop (Some reqBody) ''provider'') (\<lambda>p.
       Inr (responses, (case p of None \<Rightarrow> JStr ''claude'' | Some v \<Rightarrow> v))))"

definition invalid_request :: response where
  "invalid_request =
     \<lparr>status = 400,
      body = ErrorBody ''Invalid request'' (Text ''Missing or invalid responses object'')\<rparr>"

definition invalid_provider :: response where
  "invalid_provider =
     \<lparr>status = 400,
      body = ErrorBody ''Invalid provider''
               (Text (''Provider must be one of: '' @ join '', '' (map fst PROVIDERS)))\<rparr>"

definition configuration_error :: response where
  "configuration_error =
     \<lparr>status = 500,
      body = ErrorBody ''Configuration error''
               (Text ''Server is not properly configured. Please contact administrator.'')\<rparr>"

text \<open>Line 452: \<^verbatim>\<open>error.message || 'An unexpected error occurred'\<close>.\<close>

definition catch_message :: "thrown \<Rightarrow> message" where
  "catch_message e =
     (if err_message e = Text [] then Text ''An unexpected error occurred'' else err_message e)"

definition analysis_failed :: "runtime \<Rightarrow> thrown \<Rightarrow> response" where
  "analysis_failed rt e =
     \<lparr>status = 500, body = FailureBody ''Analysis failed'' (catch_message e) (end_time rt)\<rparr>"

text \<open>Lines 131 to 445, once the key is there.\<close>

definition with_key ::
  "runtime \<Rightarrow> jsval \<Rightarrow> json \<Rightarrow> string \<Rightarrow> provider_lookup \<Rightarrow> string
     \<Rightarrow> (thrown + response) \<times> http_request list \<times> log_entry list" where
  "with_key rt responses provider key providerConfig apiKey =
     (case dispatch rt provider providerConfig apiKey (build_prompt rt responses) of
        (Inl e, cs) \<Rightarrow> (Inl e, cs, [Processing key providerConfig])
      | (Inr n, cs) \<Rightarrow>
          (case assemble rt key providerConfig n of
             (r, entries) \<Rightarrow> (r, cs, Processing key providerConfig # entries)))"

text \<open>Lines 112 to 445: the provider, its key, and the call.\<close>

definition with_provider ::
  "runtime \<Rightarrow> jsval \<Rightarrow> json \<Rightarrow> (thrown + response) \<times> http_request list \<times> log_entry list" where
  "with_provider rt responses provider =
     (case to_string (number_to_string rt) provider of
        Inl e \<Rightarrow> (Inl e, [], [])
      | Inr key \<Rightarrow>
          (case lookup_provider key of
             Missing \<Rightarrow> (Inr invalid_provider, [], [])
           | providerConfig \<Rightarrow>
               (case env rt (config_envKey providerConfig) of
                  None \<Rightarrow> (Inr configuration_error, [], [MissingApiKey key])
                | Some apiKey \<Rightarrow>
                    if apiKey = [] then (Inr configuration_error, [], [MissingApiKey key])
                    else with_key rt responses provider key providerConfig apiKey)))"

text \<open>The body of the \<^verbatim>\<open>try\<close>, lines 102 to 445.\<close>

definition try_block ::
  "runtime \<Rightarrow> json \<Rightarrow> (thrown + response) \<times> http_request list \<times> log_entry list" where
  "try_block rt reqBody =
     (case destructure reqBody of
        Inl e \<Rightarrow> (Inl e, [], [])
      | Inr (responses, provider) \<Rightarrow>
          if \<not> truthy responses \<or> typeof responses \<noteq> TObject then (Inr invalid_request, [], [])
          else with_provider rt responses provider)"

text \<open>The handler of \<^verbatim>\<open>POST /api/analyze\<close>, with its \<^verbatim>\<open>catch\<close>.\<close>

definition analyze :: "runtime \<Rightarrow> json \<Rightarrow> outcome" where
  "analyze rt reqBody =
     (case try_block rt reqBody of
        (Inr resp, cs, ls) \<Rightarrow> \<lparr>reply = resp, calls = cs, logged = ls\<rparr>
      | (Inl e, cs, ls) \<Rightarrow>
          \<lparr>reply = analysis_failed rt e, calls = cs, logged = ls @ [AnalysisError e]\<rparr>)"

text \<open>The shapes that pass the check of line 105, and the provider a body asks for.\<close>

fun object_like :: "jsval \<Rightarrow> bool" where
  "object_like (Some (JArr xs)) = True"
| "object_like (Some (JObj kvs)) = True"
| "object_like v = False"

definition request_provider :: "json \<Rightarrow> json" where
  "request_provider reqBody =
     (case get_optional (Some reqBody) ''provider'' of None \<Rightarrow> JStr ''claude'' | Some v \<Rightarrow> v)"

text \<open>
  Names for what the statements below speak of: a body that passes the check, the branch a
  registered identifier takes, the request sent for it, and the body of a successful reply.
\<close>

definition valid_request :: "json \<Rightarrow> bool" where
  "valid_request reqBody =
     (reqBody \<noteq> JNull \<and> object_like (get_optional (Some reqBody) ''responses''))"

definition branch_of :: "string \<Rightarrow> branch" where
  "branch_of p = (if p = ''claude'' then ClaudeBranch else OpenRouterBranch)"

definition upstream_request :: "runtime \<Rightarrow> json \<Rightarrow> string \<Rightarrow> provider_config \<Rightarrow> string \<Rightarrow> http_request" where
  "upstream_request rt reqBody p c k =
     build_request (env rt) (branch_of p) c k
       (build_prompt rt (get_optional (Some reqBody) ''responses''))"

definition success_reply ::
  "runtime \<Rightarrow> provider_config \<Rightarrow> normalized \<Rightarrow> jsnum \<Rightarrow> jsnum \<Rightarrow> json \<Rightarrow> success_body" where
  "success_reply rt c n i out tot =
     \<lparr>analysis = analysisText n,
      meta_provider = name c, meta_model = model c,
      tokens_input = inputTokens n, tokens_output = outputTokens n, tokens_total = tot,
      cost_input = cost_of i (costPer1M_input c),
      cost_output = cost_of out (costPer1M_output c),
      cost_total = js_plus (cost_of i (costPer1M_input c)) (cost_of out (costPer1M_output c)),
      duration = end_time rt - start_time rt, timestamp = end_time rt\<rparr>"

text \<open>What \<^verbatim>\<open>errorData.error?.message\<close> reads from the body of a failed upstream reply.\<close>

definition upstream_message :: "json option \<Rightarrow> jsval" where
  "upstream_message parsed =
     (case parsed of
        None \<Rightarrow> None
      | Some j \<Rightarrow> get_optional (get_optional (Some j) ''error'') ''message'')"

text \<open>
  The total of lines 417 to 419 as one function of the two counts, and the same estimate in
  exact arithmetic, as the specification writes it:
  \<open>inputTokens / 1,000,000 \<times> pricePerMillionInputTokens +
   outputTokens / 1,000,000 \<times> pricePerMillionOutputTokens\<close>.
\<close>

definition total_cost :: "provider_config \<Rightarrow> jsnum \<Rightarrow> jsnum \<Rightarrow> jsnum" where
  "total_cost c i out = js_plus (cost_of i (costPer1M_input c)) (cost_of out (costPer1M_output c))"

definition exact_cost :: "provider_config \<Rightarrow> nat \<Rightarrow> nat \<Rightarrow> rat" where
  "exact_cost c a b =
     of_nat a / 1000000 * magnitude (costPer1M_input c) +
     of_nat b / 1000000 * magnitude (costPer1M_output c)"

section \<open>The rate limiter\<close>

text \<open>
  \<^verbatim>\<open>server.js\<close> puts the \<^verbatim>\<open>express-rate-limit\<close> middleware in front of
  \<^verbatim>\<open>/api/analyze\<close> and gives it two numbers (lines 36 to 47): \<^verbatim>\<open>windowMs\<close>, fifteen
  minutes, and \<^verbatim>\<open>max\<close>, ten. The counting itself is the middleware's and is not part of
  the sources; it is taken from section 4.3 of the specification.
\<close>

definition windowMs :: int where
  "windowMs = 15 * 60 * 1000"

definition max_requests :: nat where
  "max_requests = 10"

text \<open>
  Modelled from the spec: the state the middleware keeps for one client identity
  (section 3, ClientRateState: the start of the current counting window and the number of
  requests since then).
\<close>

record client_rate_state =
  windowStart :: int
  count :: nat

type_synonym rate_store = "string \<Rightarrow> client_rate_state option"

datatype admission = Admitted | RateLimited int

text \<open>
  Modelled from the spec: the window a call is counted in, missing with the middleware
  (section 4.3: ``if no state exists or \<open>now - windowStart \<ge> windowLength\<close>, reset
  \<open>windowStart = now, count = 0\<close>'').
\<close>

definition current_window :: "rate_store \<Rightarrow> string \<Rightarrow> int \<Rightarrow> client_rate_state" where
  "current_window store client now =
     (case store client of
        None \<Rightarrow> \<lparr>windowStart = now, count = 0\<rparr>
      | Some s \<Rightarrow> if windowMs \<le> now - windowStart s then \<lparr>windowStart = now, count = 0\<rparr> else s)"

text \<open>
  Modelled from the spec: the admission decision of the middleware, missing from the sources
  (section 4.3: ``Increment \<open>count\<close>. If \<open>count > maxRequestsPerWindow\<close>, reject and report
  \<open>retryAfter = windowLength - (now - windowStart)\<close>; otherwise admit'').
\<close>

definition admit :: "rate_store \<Rightarrow> string \<Rightarrow> int \<Rightarrow> admission \<times> rate_store" where
  "admit store client now =
     (let s = current_window store client now;
          s' = s\<lparr>count := count s + 1\<rparr>
      in (if max_requests < count s' then RateLimited (windowMs - (now - windowStart s'))
          else Admitted,
          store(client \<mapsto> s')))"

text \<open>A run of requests, each a client identity and the time it arrives at.\<close>

fun serve :: "rate_store \<Rightarrow> (string \<times> int) list \<Rightarrow> admission list \<times> rate_store" where
  "serve store [] = ([], store)"
| "serve store ((client, now) # evs) =
     (case admit store client now of
        (d, store') \<Rightarrow> (case serve store' evs of (ds, store'') \<Rightarrow> (d # ds, store'')))"

text \<open>How many of the first \<open>n\<close> requests of a run come from the client.\<close>

definition requests_so_far :: "string \<Rightarrow> (string \<times> int) list \<Rightarrow> nat \<Rightarrow> nat" where
  "requests_so_far client evs n = length (filter (\<lambda>ev. fst ev = client) (take n evs))"

section \<open>Sample data\<close>

definition sample_message_body :: json where
  "sample_message_body =
     JObj [(''content'', JArr [JObj [(''type'', JStr ''text''), (''text'', JStr ''Report body'')]]),
           (''usage'', JObj [(''input_tokens'', JNum (Fin 500)),
                             (''output_tokens'', JNum (Fin 800))])]"

definition sample_chat_body :: json where
  "sample_chat_body =
     JObj [(''choices'', JArr [JObj [(''message'', JObj [(''role'', JStr ''assistant''),
                                                         (''content'', JStr ''Report body'')])]]),
           (''usage'', JObj [(''prompt_tokens'', JNum (Fin 500)),
                             (''completion_tokens'', JNum (Fin 800))])]"

definition sample_env :: "string \<Rightarrow> string option" where
  "sample_env =
     [''ANTHROPIC_API_KEY'' \<mapsto> ''sk-ant-test'', ''OPENROUTER_API_KEY'' \<mapsto> ''sk-or-test'']"

definition no_env :: "string \<Rightarrow> string option" where
  "no_env = Map.empty"

definition sample_fetch :: "http_request \<Rightarrow> fetch_result" where
  "sample_fetch req =
     (if url req = ''https://api.anthropic.com/v1/messages''
      then Responded 200 (Some sample_message_body)
      else Responded 200 (Some sample_chat_body))"

definition sample_runtime :: runtime where
  "sample_runtime =
     \<lparr>number_to_string = (\<lambda>n. ''0''), string_to_number = (\<lambda>s. NaN),
      build_prompt = (\<lambda>v. ''prompt''), env = sample_env, fetch = sample_fetch,
      start_time = 1000, end_time = 4000\<rparr>"

definition sample_request :: json where
  "sample_request =
     JObj [(''responses'', JObj [(''industry'', JArr [JStr ''saas''])]),
           (''provider'', JStr ''claude'')]"

definition sample_error_body :: json where
  "sample_error_body =
     JObj [(''type'', JStr ''error''),
           (''error'', JObj [(''type'', JStr ''overloaded_error''),
                             (''message'', JStr ''Overloaded'')])]"

definition failing_runtime :: runtime where
  "failing_runtime = sample_runtime\<lparr>fetch := (\<lambda>req. Responded 503 (Some sample_error_body))\<rparr>"

definition unconfigured_runtime :: runtime where
  "unconfigured_runtime = sample_runtime\<lparr>env := [''OPENROUTER_API_KEY'' \<mapsto> []]\<rparr>"

definition reply_success :: "outcome \<Rightarrow> success_body option" where
  "reply_success out = (case body (reply out) of SuccessBody s \<Rightarrow> Some s | _ \<Rightarrow> None)"

definition no_usage_body :: json where
  "no_usage_body =
     JObj [(''content'', JArr [JObj [(''type'', JStr ''text''), (''text'', JStr ''Report body'')]])]"

definition no_usage_chat_body :: json where
  "no_usage_chat_body =
     JObj [(''choices'', JArr [JObj [(''message'', JObj [(''role'', JStr ''assistant''),
                                                         (''content'', JStr ''Chat report'')])]])]"

definition no_usage_fetch :: "http_request \<Rightarrow> fetch_result" where
  "no_usage_fetch req =
     (if url req = ''https://api.anthropic.com/v1/messages''
      then Responded 200 (Some no_usage_body)
      else Responded 200 (Some no_usage_chat_body))"

definition no_usage_runtime :: runtime where
  "no_usage_runtime = sample_runtime\<lparr>fetch := no_usage_fetch\<rparr>"

definition sample_chat_request :: json where
  "sample_chat_request =
     JObj [(''responses'', JObj [(''industry'', JArr [JStr ''saas''])]),
           (''provider'', JStr ''openrouter_gpt4'')]"

definition chat_success :: success_body where
  "chat_success =
     success_reply sample_runtime (snd (PROVIDERS ! 2))
       \<lparr>analysisText = Some (JStr ''Report body''),
        inputTokens = JNum (Fin 500), outputTokens = JNum (Fin 800)\<rparr>
       (Fin 500) (Fin 800) (JNum (js_plus (Fin 500) (Fin 800)))"

definition sample_normalized :: normalized where
  "sample_normalized =
     \<lparr>analysisText = Some (JStr ''Report body''),
      inputTokens = JNum (Fin 500), outputTokens = JNum (Fin 800)\<rparr>"

definition sample_success :: success_body where
  "sample_success =
     success_reply sample_runtime (snd (hd PROVIDERS)) sample_normalized (Fin 500) (Fin 800)
       (JNum (js_plus (Fin 500) (Fin 800)))"

definition other_request :: json where
  "other_request = JObj [(''responses'', JObj [(''industry'', JArr [JStr ''retail''])])]"

definition other_runtime :: runtime where
  "other_runtime =
     sample_runtime\<lparr>build_prompt := (\<lambda>v. ''another prompt''),
       env := [''ANTHROPIC_API_KEY'' \<mapsto> ''sk-ant-other'', ''NODE_ENV'' \<mapsto> ''development''],
       start_time := 7000, end_time := 9500\<rparr>"

definition other_success :: success_body where
  "other_success =
     success_reply other_runtime (snd (hd PROVIDERS)) sample_normalized (Fin 500) (Fin 800)
       (JNum (js_plus (Fin 500) (Fin 800)))"

definition priced_body :: json where
  "priced_body =
     JObj [(''content'', JArr [JObj [(''type'', JStr ''text''), (''text'', JStr ''Report body'')]]),
           (''usage'', JObj [(''input_tokens'', JNum (Fin 1000)),
                             (''output_tokens'', JNum (Fin 2000))])]"

definition priced_runtime :: runtime where
  "priced_runtime = sample_runtime\<lparr>fetch := (\<lambda>req. Responded 200 (Some priced_body))\<rparr>"

definition priced_normalized :: normalized where
  "priced_normalized =
     \<lparr>analysisText = Some (JStr ''Report body''),
      inputTokens = JNum (Fin 1000), outputTokens = JNum (Fin 2000)\<rparr>"

definition priced_success :: success_body where
  "priced_success =
     success_reply priced_runtime (snd (hd PROVIDERS)) priced_normalized (Fin 1000) (Fin 2000)
       (JNum (js_plus (Fin 1000) (Fin 2000)))"

definition no_store :: rate_store where
  "no_store = Map.empty"

definition rapid_requests :: "(string \<times> int) list" where
  "rapid_requests =
     [(''203.0.113.7'', 10), (''203.0.113.7'', 20), (''198.51.100.2'', 25),
      (''203.0.113.7'', 30), (''203.0.113.7'', 40), (''203.0.113.7'', 50),
      (''203.0.113.7'', 60), (''203.0.113.7'', 70), (''203.0.113.7'', 80),
      (''203.0.113.7'', 90), (''203.0.113.7'', 100)]"

section \<open>Facts about the handler\<close>

lemma object_like_truthy: "object_like v \<Longrightarrow> truthy v"
  by (cases v rule: object_like.cases) auto

lemma object_like_typeof: "object_like v \<Longrightarrow> typeof v = TObject"
  by (cases v rule: object_like.cases) auto

lemma truthy_object_like: "truthy v \<Longrightarrow> typeof v = TObject \<Longrightarrow> object_like v"
  by (cases v rule: object_like.cases) auto

lemma destructure_null: "destructure JNull = Inl TypeError"
  by (simp add: destructure_def and_then_def)

lemma destructure_eq:
  "reqBody \<noteq> JNull \<Longrightarrow>
     destructure reqBody = Inr (get_optional (Some reqBody) ''responses'', request_provider reqBody)"
  by (cases reqBody) (simp_all add: destructure_def and_then_def request_provider_def)

lemma try_block_eq:
  "try_block rt reqBody =
     (if reqBody = JNull then (Inl TypeError, [], [])
      else if \<not> object_like (get_optional (Some reqBody) ''responses'')
      then (Inr invalid_request, [], [])
      else with_provider rt (get_optional (Some reqBody) ''responses'') (request_provider reqBody))"
  by (auto simp: try_block_def destructure_null destructure_eq
      dest: object_like_truthy object_like_typeof truthy_object_like)

lemma assemble_status:
  "assemble rt key cfg n = (Inr resp, ls) \<Longrightarrow> status resp = 200"
  by (auto simp: assemble_def Let_def split: sum.splits provider_lookup.splits)

lemma with_key_status:
  "with_key rt responses provider key cfg apiKey = (Inr resp, cs, ls) \<Longrightarrow> status resp = 200"
  by (auto simp: with_key_def split: prod.splits sum.splits dest: assemble_status)

lemma with_provider_reply:
  assumes "with_provider rt responses provider = (Inr resp, cs, ls)"
  shows "resp = invalid_provider \<and> cs = [] \<or> resp = configuration_error \<and> cs = [] \<or> status resp = 200"
  using assms
  by (auto simp: with_provider_def split: sum.splits provider_lookup.splits option.splits if_splits
      dest: with_key_status)

lemma statuses:
  "status invalid_request = 400" "status invalid_provider = 400"
  "status configuration_error = 500" "status (analysis_failed rt e) = 500"
  by (simp_all add: invalid_request_def invalid_provider_def configuration_error_def
      analysis_failed_def)

lemma invalid_request_neq:
  "invalid_provider \<noteq> invalid_request" "configuration_error \<noteq> invalid_request"
  "analysis_failed rt e \<noteq> invalid_request"
  by (simp_all add: invalid_request_def invalid_provider_def configuration_error_def
      analysis_failed_def)

lemmas run_defs = analyze_def try_block_def destructure_def and_then_def own_property_def
  lookup_provider_def PROVIDERS_def with_provider_def with_key_def dispatch_def select_branch_def
  read_response_def response_ok_def normalize_message_def normalize_chat_def or_zero_def
  assemble_def Let_def claude_request_def openrouter_request_def config_envKey_def js_add_def
  sample_runtime_def sample_env_def sample_fetch_def sample_message_body_def sample_chat_body_def

lemma registered_ids:
  "map_of PROVIDERS p = Some c \<Longrightarrow>
     p = ''claude'' \<or> p = ''openrouter_claude'' \<or> p = ''openrouter_gpt4'' \<or> p = ''openrouter_haiku''"
  by (auto simp: PROVIDERS_def split: if_splits)

lemma registered_branch:
  assumes "map_of PROVIDERS p = Some c"
  shows "select_branch (JStr p) = Inr (Some (branch_of p))"
  using registered_ids [OF assms] by (auto simp: select_branch_def branch_of_def)

lemma lookup_registered: "map_of PROVIDERS p = Some c \<Longrightarrow> lookup_provider p = Config c"
  by (simp add: lookup_provider_def)

lemma lookup_Config: "lookup_provider k = Config c \<Longrightarrow> map_of PROVIDERS k = Some c"
  by (auto simp: lookup_provider_def split: option.splits if_splits)

lemma lookup_Missing:
  "lookup_provider k = Missing \<longleftrightarrow>
     k \<notin> set (map fst PROVIDERS) \<and> k \<notin> set object_prototype_keys"
  by (auto simp: lookup_provider_def map_of_eq_None_iff split: option.splits)
    (metis map_of_eq_None_iff option.distinct(1) image_eqI fst_conv)+

lemma read_response_Inr:
  "read_response n2s b r = Inr n \<Longrightarrow>
     \<exists>st data. r = Responded st (Some data) \<and> response_ok st \<and> normalize b data = Inr n"
  by (auto simp: read_response_def split: fetch_result.splits if_splits option.splits)

lemma assemble_Inr:
  assumes "assemble rt key cfg n = (Inr resp, ls)"
  shows "\<exists>c i out tot. cfg = Config c \<and>
           to_number (number_to_string rt) (string_to_number rt) (inputTokens n) = Inr i \<and>
           to_number (number_to_string rt) (string_to_number rt) (outputTokens n) = Inr out \<and>
           js_add (number_to_string rt) (string_to_number rt) (inputTokens n) (outputTokens n) = Inr tot \<and>
           resp = \<lparr>status = 200, body = SuccessBody (success_reply rt c n i out tot)\<rparr>"
  using assms
  by (auto simp: assemble_def Let_def success_reply_def split: sum.splits provider_lookup.splits)

lemma assemble_Config:
  assumes "to_number (number_to_string rt) (string_to_number rt) (inputTokens n) = Inr i"
    and "to_number (number_to_string rt) (string_to_number rt) (outputTokens n) = Inr out"
    and "js_add (number_to_string rt) (string_to_number rt) (inputTokens n) (outputTokens n) = Inr tot"
  shows "fst (assemble rt key (Config c) n) =
           Inr \<lparr>status = 200, body = SuccessBody (success_reply rt c n i out tot)\<rparr>"
  using assms by (simp add: assemble_def Let_def success_reply_def)

lemma dispatch_Inr:
  assumes "dispatch rt provider (Config c) k prompt = (Inr n, cs)"
    and "to_string (number_to_string rt) provider = Inr key"
    and "map_of PROVIDERS key = Some c"
  shows "provider = JStr key \<and> cs = [build_request (env rt) (branch_of key) c k prompt] \<and>
         read_response (number_to_string rt) (branch_of key)
           (fetch rt (build_request (env rt) (branch_of key) c k prompt)) = Inr n"
proof -
  from assms(1) obtain s where s: "provider = JStr s"
    by (cases provider) (auto simp: dispatch_def select_branch_def)
  with assms(2) have "s = key" by simp
  with s assms(1,3) show ?thesis
    by (auto simp: dispatch_def registered_branch Let_def)
qed

lemma with_provider_Inr:
  assumes "with_provider rt responses provider = (Inr resp, cs, ls)" and "status resp = 200"
  shows "\<exists>p c k n i out tot.
           provider = JStr p \<and> map_of PROVIDERS p = Some c \<and> env rt (envKey c) = Some k \<and> k \<noteq> [] \<and>
           cs = [build_request (env rt) (branch_of p) c k (build_prompt rt responses)] \<and>
           read_response (number_to_string rt) (branch_of p)
             (fetch rt (build_request (env rt) (branch_of p) c k (build_prompt rt responses))) = Inr n \<and>
           to_number (number_to_string rt) (string_to_number rt) (inputTokens n) = Inr i \<and>
           to_number (number_to_string rt) (string_to_number rt) (outputTokens n) = Inr out \<and>
           js_add (number_to_string rt) (string_to_number rt) (inputTokens n) (outputTokens n) = Inr tot \<and>
           resp = \<lparr>status = 200, body = SuccessBody (success_reply rt c n i out tot)\<rparr>"
proof -
  from assms obtain key where key: "to_string (number_to_string rt) provider = Inr key"
    by (auto simp: with_provider_def split: sum.splits)
  from assms key obtain cfg where cfg: "lookup_provider key = cfg" "cfg \<noteq> Missing"
    by (auto simp: with_provider_def statuses split: provider_lookup.splits)
  from assms key cfg obtain k where k: "env rt (config_envKey cfg) = Some k" "k \<noteq> []"
    and wk: "with_key rt responses provider key cfg k = (Inr resp, cs, ls)"
    by (cases cfg) (auto simp: with_provider_def statuses split: option.splits if_splits)
  from wk obtain n entries where
    d: "dispatch rt provider cfg k (build_prompt rt responses) = (Inr n, cs)"
    and a: "assemble rt key cfg n = (Inr resp, entries)"
    by (auto simp: with_key_def split: prod.splits sum.splits)
  from assemble_Inr [OF a] obtain c i out tot where
    c: "cfg = Config c"
    and rest: "to_number (number_to_string rt) (string_to_number rt) (inputTokens n) = Inr i"
      "to_number (number_to_string rt) (string_to_number rt) (outputTokens n) = Inr out"
      "js_add (number_to_string rt) (string_to_number rt) (inputTokens n) (outputTokens n) = Inr tot"
      "resp = \<lparr>status = 200, body = SuccessBody (success_reply rt c n i out tot)\<rparr>"
    by blast
  from cfg c have m: "map_of PROVIDERS key = Some c" by (simp add: lookup_Config)
  from dispatch_Inr [OF d [unfolded c] key m] k c rest m show ?thesis
    by (auto simp: config_envKey_def)
qed

lemma analyze_valid:
  assumes "valid_request reqBody"
  shows "analyze rt reqBody =
     (case with_provider rt (get_optional (Some reqBody) ''responses'') (request_provider reqBody) of
        (Inr resp, cs, ls) \<Rightarrow> \<lparr>reply = resp, calls = cs, logged = ls\<rparr>
      | (Inl e, cs, ls) \<Rightarrow>
          \<lparr>reply = analysis_failed rt e, calls = cs, logged = ls @ [AnalysisError e]\<rparr>)"
  using assms by (simp add: analyze_def try_block_eq valid_request_def)

lemma analyze_upstream_failure:
  assumes "valid_request reqBody" and "request_provider reqBody = JStr p"
    and "map_of PROVIDERS p = Some c" and "env rt (envKey c) = Some k" and "k \<noteq> []"
    and "read_response (number_to_string rt) (branch_of p)
           (fetch rt (upstream_request rt reqBody p c k)) = Inl e"
  shows "analyze rt reqBody =
           \<lparr>reply = analysis_failed rt e, calls = [upstream_request rt reqBody p c k],
            logged = [Processing p (Config c), AnalysisError e]\<rparr>"
  using assms
  by (simp add: analyze_valid with_provider_def lookup_registered config_envKey_def with_key_def
      dispatch_def registered_branch upstream_request_def Let_def)

lemma analyze_upstream_success:
  assumes "valid_request reqBody" and "request_provider reqBody = JStr p"
    and "map_of PROVIDERS p = Some c" and "env rt (envKey c) = Some k" and "k \<noteq> []"
    and "read_response (number_to_string rt) (branch_of p)
           (fetch rt (upstream_request rt reqBody p c k)) = Inr n"
    and "to_number (number_to_string rt) (string_to_number rt) (inputTokens n) = Inr i"
    and "to_number (number_to_string rt) (string_to_number rt) (outputTokens n) = Inr out"
    and "js_add (number_to_string rt) (string_to_number rt) (inputTokens n) (outputTokens n) = Inr tot"
  shows "reply (analyze rt reqBody) =
           \<lparr>status = 200, body = SuccessBody (success_reply rt c n i out tot)\<rparr> \<and>
         calls (analyze rt reqBody) = [upstream_request rt reqBody p c k]"
  using assms
  by (simp add: analyze_valid with_provider_def lookup_registered config_envKey_def with_key_def
      dispatch_def registered_branch upstream_request_def Let_def assemble_def success_reply_def)

lemma analyze_success:
  assumes "body (reply (analyze rt reqBody)) = SuccessBody s"
  shows "\<exists>p c k n i out tot.
           valid_request reqBody \<and>
           request_provider reqBody = JStr p \<and> map_of PROVIDERS p = Some c \<and>
           env rt (envKey c) = Some k \<and> k \<noteq> [] \<and>
           calls (analyze rt reqBody) = [upstream_request rt reqBody p c k] \<and>
           read_response (number_to_string rt) (branch_of p)
             (fetch rt (upstream_request rt reqBody p c k)) = Inr n \<and>
           to_number (number_to_string rt) (string_to_number rt) (inputTokens n) = Inr i \<and>
           to_number (number_to_string rt) (string_to_number rt) (outputTokens n) = Inr out \<and>
           js_add (number_to_string rt) (string_to_number rt) (inputTokens n) (outputTokens n) = Inr tot \<and>
           s = success_reply rt c n i out tot"
proof -
  have v: "valid_request reqBody"
    using assms
    by (auto simp: valid_request_def analyze_def try_block_eq analysis_failed_def invalid_request_def
        split: if_splits)
  obtain r cs ls where
    w: "with_provider rt (get_optional (Some reqBody) ''responses'') (request_provider reqBody)
          = (r, cs, ls)"
    using prod_cases3 by blast
  from assms v w obtain resp where r: "r = Inr resp" and resp: "body resp = SuccessBody s"
    by (cases r) (auto simp: analyze_valid analysis_failed_def)
  from with_provider_reply [OF w [unfolded r]] resp have "status resp = 200"
    by (auto simp: invalid_provider_def configuration_error_def)
  from with_provider_Inr [OF w [unfolded r] this] v w r resp show ?thesis
    by (auto simp: analyze_valid upstream_request_def)
qed

lemma registered_calls:
  assumes "valid_request reqBody" and "request_provider reqBody = JStr p"
    and "map_of PROVIDERS p = Some c" and "env rt (envKey c) = Some k" and "k \<noteq> []"
  shows "calls (analyze rt reqBody) = [upstream_request rt reqBody p c k]"
proof (cases "read_response (number_to_string rt) (branch_of p)
           (fetch rt (upstream_request rt reqBody p c k))")
  case (Inl e)
  from analyze_upstream_failure [OF assms this] show ?thesis by simp
next
  case (Inr n)
  with assms show ?thesis
    by (simp add: analyze_valid with_provider_def lookup_registered config_envKey_def with_key_def
      dispatch_def registered_branch upstream_request_def Let_def split: prod.splits sum.splits)
qed

lemma get_prop_Inr: "get_prop v k = Inr x \<Longrightarrow> x = get_optional v k"
  by (cases "(v, k)" rule: get_prop.cases) auto

lemma normalize_fields:
  assumes "normalize b data = Inr n"
  shows "inputTokens n = or_zero (get_optional (get_optional (Some data) ''usage'')
            (case b of ClaudeBranch \<Rightarrow> ''input_tokens'' | OpenRouterBranch \<Rightarrow> ''prompt_tokens''))"
    and "outputTokens n = or_zero (get_optional (get_optional (Some data) ''usage'')
            (case b of ClaudeBranch \<Rightarrow> ''output_tokens'' | OpenRouterBranch \<Rightarrow> ''completion_tokens''))"
  using assms
  by (cases b; auto simp: normalize_message_def normalize_chat_def and_then_def
      split: sum.splits dest!: get_prop_Inr)+

lemma success_fields:
  assumes "body (reply (analyze rt reqBody)) = SuccessBody s"
    and "request_provider reqBody = JStr p"
    and "calls (analyze rt reqBody) = [req]"
    and "fetch rt req = Responded st (Some data)"
  shows "normalize (branch_of p) data =
           Inr \<lparr>analysisText = analysis s, inputTokens = tokens_input s,
                outputTokens = tokens_output s\<rparr>"
proof -
  from analyze_success [OF assms(1)] obtain p' c k n i out tot where
    h: "request_provider reqBody = JStr p'"
      "calls (analyze rt reqBody) = [upstream_request rt reqBody p' c k]"
      "read_response (number_to_string rt) (branch_of p')
             (fetch rt (upstream_request rt reqBody p' c k)) = Inr n"
      "s = success_reply rt c n i out tot"
    by blast
  from h(1) assms(2) have p: "p' = p" by simp
  from h(2) assms(3) have r: "upstream_request rt reqBody p' c k = req" by simp
  from read_response_Inr [OF h(3)] r assms(4) p have "normalize (branch_of p) data = Inr n"
    by auto
  with h(4) show ?thesis by (simp add: success_reply_def)
qed

lemma sample_run:
  "body (reply (analyze sample_runtime sample_request)) = SuccessBody sample_success"
  by (simp add: run_defs sample_request_def sample_success_def success_reply_def
      sample_normalized_def)

lemma other_run:
  "body (reply (analyze other_runtime other_request)) = SuccessBody other_success"
  by (simp add: run_defs other_request_def other_success_def other_runtime_def success_reply_def
      sample_normalized_def)

lemma priced_run:
  "body (reply (analyze priced_runtime sample_request)) = SuccessBody priced_success"
  by (simp add: run_defs sample_request_def priced_success_def priced_runtime_def
      success_reply_def priced_normalized_def priced_body_def)

lemma get_prop_other: "get_prop v k = Inr x \<Longrightarrow> get_prop v k' = Inr (get_optional v k')"
  by (cases "(v, k)" rule: get_prop.cases) auto

lemma normalize_message_reads:
  assumes "get_prop (Some data) ''content'' = Inr content" and "get_first content = Inr first"
    and "get_prop first ''text'' = Inr txt"
  shows "normalize_message data =
           Inr \<lparr>analysisText = txt,
                inputTokens = or_zero (get_optional (get_optional (Some data) ''usage'') ''input_tokens''),
                outputTokens = or_zero (get_optional (get_optional (Some data) ''usage'') ''output_tokens'')\<rparr>"
  using assms get_prop_other [OF assms(1), of "''usage''"]
  by (simp add: normalize_message_def and_then_def)

lemma normalize_chat_reads:
  assumes "get_prop (Some data) ''choices'' = Inr choices" and "get_first choices = Inr first"
    and "get_prop first ''message'' = Inr msg" and "get_prop msg ''content'' = Inr txt"
  shows "normalize_chat data =
           Inr \<lparr>analysisText = txt,
                inputTokens = or_zero (get_optional (get_optional (Some data) ''usage'') ''prompt_tokens''),
                outputTokens = or_zero (get_optional (get_optional (Some data) ''usage'') ''completion_tokens'')\<rparr>"
  using assms get_prop_other [OF assms(1), of "''usage''"]
  by (simp add: normalize_chat_def and_then_def)

lemma normalize_message_text:
  assumes "normalize_message data = Inr n"
  shows "\<exists>content first. get_prop (Some data) ''content'' = Inr content \<and>
           get_first content = Inr first \<and> get_prop first ''text'' = Inr (analysisText n)"
  using assms by (auto simp: normalize_message_def and_then_def split: sum.splits)

lemma normalize_chat_text:
  assumes "normalize_chat data = Inr n"
  shows "\<exists>choices first msg. get_prop (Some data) ''choices'' = Inr choices \<and>
           get_first choices = Inr first \<and> get_prop first ''message'' = Inr msg \<and>
           get_prop msg ''content'' = Inr (analysisText n)"
  using assms by (auto simp: normalize_chat_def and_then_def split: sum.splits)

lemma dispatch_registered:
  assumes "map_of PROVIDERS p = Some c"
  shows "dispatch rt (JStr p) (Config c) k prompt =
           (read_response (number_to_string rt) (branch_of p)
              (fetch rt (build_request (env rt) (branch_of p) c k prompt)),
            [build_request (env rt) (branch_of p) c k prompt])"
  using assms by (simp add: dispatch_def registered_branch Let_def)

lemma chat_run:
  "body (reply (analyze sample_runtime sample_chat_request)) = SuccessBody chat_success"
  by (simp add: run_defs sample_chat_request_def chat_success_def success_reply_def)

section \<open>Whole numbers in binary64\<close>

lemma round_half_even_int [simp]: "round_half_even (of_int z) = z"
  by (simp add: round_half_even_def)

lemma bitlen_le_53:
  assumes "0 < n" and "n < 2 ^ 53"
  shows "1 \<le> bitlen n \<and> bitlen n \<le> 53"
proof -
  from assms(1) have b: "2 ^ nat (bitlen n - 1) \<le> n" "1 \<le> bitlen n"
    using bitlen_bounds [of n] bitlen_eq_zero_iff [of n] bitlen_nonneg [of n] by auto
  with assms(2) have "(2::int) ^ nat (bitlen n - 1) < 2 ^ 53" by linarith
  then have "nat (bitlen n - 1) < 53" by (rule power_less_imp_less_exp [rotated]) simp
  with b show ?thesis by linarith
qed

lemma round_double_int:
  assumes "0 < n" and "n < 2 ^ 53"
  shows "round_double (of_int n) = Fin (of_int n)"
proof -
  define e where "e = bitlen n - 1"
  define k where "k = nat (52 - e)"
  from bitlen_le_53 [OF assms] have e: "0 \<le> e" "e \<le> 52" by (auto simp: e_def)
  have ab: "\<bar>of_int n :: rat\<bar> = of_int n" using assms(1) by simp
  have il: "ilog2 (of_int n) = e" using assms(1) by (simp add: ilog2_def e_def)
  from e have mx: "max e (- 1022) = e" by simp
  have u: "pow2 (e - 52) = 1 / 2 ^ k"
    using e by (cases "e = 52") (auto simp: pow2_def k_def)
  have "(of_int n :: rat) / pow2 (e - 52) = of_int (n * 2 ^ k)"
    unfolding u by simp
  then have r: "round_half_even ((of_int n :: rat) / pow2 (e - 52)) = n * 2 ^ k"
    by (simp only: round_half_even_int)
  have m: "of_int (n * 2 ^ k) * pow2 (e - 52) = (of_int n :: rat)"
    unfolding u by simp
  have big: "\<not> pow2 1024 \<le> (of_int n :: rat)"
  proof -
    have "(of_int n :: rat) < of_int (2 ^ 53)" using assms(2) by (simp only: of_int_less_iff)
    also have "\<dots> \<le> 2 ^ 1024" by simp
    finally show ?thesis by (simp add: pow2_def)
  qed
  have nz: "(of_int n :: rat) \<noteq> 0" "(0::rat) < of_int n" using assms(1) by simp_all
  show ?thesis
    unfolding round_double_def Let_def ab il mx r m
    using nz big by simp
qed

lemma js_plus_nat:
  assumes "a + b < 2 ^ 53"
  shows "js_plus (Fin (of_nat a)) (Fin (of_nat b)) = Fin (of_nat (a + b))"
proof (cases "a = 0 \<and> b = 0")
  case True
  then show ?thesis by (simp add: js_plus_def signed_zero_def)
next
  case False
  then have pos: "0 < int (a + b)" by arith
  from assms have "int (a + b) < 2 ^ 53"
    by (metis of_nat_less_iff of_nat_numeral of_nat_power)
  from round_double_int [OF pos this] False show ?thesis
    by (auto simp: js_plus_def)
qed

lemma or_zero_None [simp]: "or_zero None = JNum (Fin 0)"
  by (simp add: or_zero_def)

lemma js_add_zero:
  "js_add n2s s2n (JNum (Fin 0)) (JNum (Fin 0)) = Inr (JNum (Fin 0))"
  by (simp add: js_add_def and_then_def js_plus_def signed_zero_def)

lemma js_add_nat:
  assumes "a + b < 2 ^ 53"
  shows "js_add n2s s2n (JNum (Fin (of_nat a))) (JNum (Fin (of_nat b)))
           = Inr (JNum (Fin (of_nat (a + b))))"
  using js_plus_nat [OF assms] by (simp add: js_add_def and_then_def)

section \<open>Rounding to binary64\<close>

text \<open>
  \<open>ilog2\<close> is the binary exponent, so \<open>round_double\<close> keeps 53 significant bits: in the
  normal range the result is within half a unit in the last place, a relative error of at
  most \<open>2 ^ -53\<close>.
\<close>

lemma pow2_power_int: "pow2 k = power_int 2 k"
  by (simp add: pow2_def power_int_def field_simps)

lemma pow2_pos [simp]: "0 < pow2 k"
  by (simp add: pow2_power_int)

lemma pow2_add: "pow2 (a + b) = pow2 a * pow2 b"
  by (simp add: pow2_power_int power_int_add)

lemma pow2_mono: "a \<le> b \<Longrightarrow> pow2 a \<le> pow2 b"
  by (simp add: pow2_power_int power_int_increasing)

lemma pow2_strict_mono: "a < b \<Longrightarrow> pow2 a < pow2 b"
  by (simp add: pow2_power_int power_int_strict_increasing)

lemma pow2_nat: "0 \<le> k \<Longrightarrow> pow2 k = 2 ^ nat k"
  by (simp add: pow2_def)

lemma ilog2_bounds:
  assumes "0 < q"
  shows "pow2 (ilog2 q) \<le> q \<and> q < pow2 (ilog2 q + 1)"
proof (cases "1 \<le> q")
  case True
  let ?n = "\<lfloor>q\<rfloor>"
  from True have n: "0 < ?n" by linarith
  from bitlen_bounds [OF n] have b: "2 ^ nat (bitlen ?n - 1) \<le> ?n" "?n < 2 ^ nat (bitlen ?n)"
    by auto
  from n have b1: "1 \<le> bitlen ?n"
    using bitlen_eq_zero_iff [of ?n] bitlen_nonneg [of ?n] by linarith
  have "(2::rat) ^ nat (bitlen ?n - 1) = of_int (2 ^ nat (bitlen ?n - 1))" by simp
  also have "\<dots> \<le> of_int ?n" using b(1) by (simp only: of_int_le_iff)
  also have "\<dots> \<le> q" by simp
  finally have lo: "(2::rat) ^ nat (bitlen ?n - 1) \<le> q" .
  have "?n + 1 \<le> 2 ^ nat (bitlen ?n)" using b(2) by linarith
  then have "(of_int (?n + 1) :: rat) \<le> of_int (2 ^ nat (bitlen ?n))" by (simp only: of_int_le_iff)
  moreover have "(of_int (2 ^ nat (bitlen ?n)) :: rat) = 2 ^ nat (bitlen ?n)" by simp
  moreover have "q < of_int (?n + 1)" by linarith
  ultimately have hi: "q < 2 ^ nat (bitlen ?n)" by linarith
  from True b1 lo hi show ?thesis
    by (simp add: ilog2_def pow2_def)
next
  case False
  with assms have q: "0 < q" "q < 1" by simp_all
  let ?t = "1 / q"
  let ?N = "\<lceil>?t\<rceil>"
  from q have t1: "1 < ?t" by simp
  then have N: "2 \<le> ?N" by linarith
  then have n: "0 < ?N - 1" by linarith
  let ?b = "bitlen (?N - 1)"
  from bitlen_bounds [OF n] have b: "2 ^ nat (?b - 1) \<le> ?N - 1" "?N - 1 < 2 ^ nat ?b"
    by auto
  from n have b1: "1 \<le> ?b"
    using bitlen_eq_zero_iff [of "?N - 1"] bitlen_nonneg [of "?N - 1"] by linarith
  have "?N \<le> 2 ^ nat ?b" using b(2) by linarith
  then have "(of_int ?N :: rat) \<le> of_int (2 ^ nat ?b)" by (simp only: of_int_le_iff)
  also have "(of_int (2 ^ nat ?b) :: rat) = 2 ^ nat ?b" by simp
  finally have "(of_int ?N :: rat) \<le> 2 ^ nat ?b" .
  moreover have "?t \<le> of_int ?N" by linarith
  ultimately have "?t \<le> 2 ^ nat ?b" by linarith
  then have lo: "1 / 2 ^ nat ?b \<le> q"
    using q by (simp add: field_simps)
  have "(of_int (2 ^ nat (?b - 1)) :: rat) \<le> of_int (?N - 1)" using b(1) by (simp only: of_int_le_iff)
  moreover have "(of_int (2 ^ nat (?b - 1)) :: rat) = 2 ^ nat (?b - 1)" by simp
  moreover have "of_int (?N - 1) < ?t" by linarith
  ultimately have "2 ^ nat (?b - 1) < ?t" by linarith
  then have hi': "q * 2 ^ nat (?b - 1) < 1"
    using q by (simp add: field_simps)
  have hi: "q < pow2 (- ?b + 1)"
  proof (cases "?b = 1")
    case True
    with q show ?thesis by (simp add: pow2_def)
  next
    case False
    with b1 have "- ?b + 1 < 0" "nat (- (- ?b + 1)) = nat (?b - 1)" by simp_all
    with hi' show ?thesis by (simp add: pow2_def field_simps)
  qed
  from b1 have "pow2 (- ?b) = 1 / 2 ^ nat ?b" by (simp add: pow2_def)
  with lo hi False show ?thesis by (simp add: ilog2_def)
qed

lemma ilog2_unique:
  assumes "pow2 e \<le> q" and "q < pow2 (e + 1)"
  shows "ilog2 q = e"
proof -
  have q: "0 < q" using assms(1) pow2_pos [of e] by linarith
  from ilog2_bounds [OF q] have b: "pow2 (ilog2 q) \<le> q" "q < pow2 (ilog2 q + 1)" by auto
  have "\<not> ilog2 q < e"
  proof
    assume "ilog2 q < e"
    then have "pow2 (ilog2 q + 1) \<le> pow2 e" by (intro pow2_mono) simp
    with b(2) assms(1) show False by linarith
  qed
  moreover have "\<not> e < ilog2 q"
  proof
    assume "e < ilog2 q"
    then have "pow2 (e + 1) \<le> pow2 (ilog2 q)" by (intro pow2_mono) simp
    with b(1) assms(2) show False by linarith
  qed
  ultimately show ?thesis by linarith
qed

lemma round_half_even_error: "\<bar>of_int (round_half_even x) - x\<bar> \<le> 1 / 2"
proof -
  define f where "f = \<lfloor>x\<rfloor>"
  define r where "r = x - of_int f"
  have r: "0 \<le> r" "r < 1" unfolding r_def f_def by linarith+
  have x: "x = of_int f + r" by (simp add: r_def)
  have "round_half_even x =
          (if r < 1 / 2 then f else if 1 / 2 < r then f + 1 else if even f then f else f + 1)"
    by (simp add: round_half_even_def Let_def f_def r_def)
  then show ?thesis using r unfolding x by (auto simp: abs_if)
qed

lemma round_half_even_ge: "of_int a \<le> x \<Longrightarrow> a \<le> round_half_even x"
proof -
  assume "of_int a \<le> x"
  then have "a \<le> \<lfloor>x\<rfloor>" by (simp add: le_floor_iff)
  then show ?thesis by (auto simp: round_half_even_def Let_def)
qed

lemma round_half_even_le: "x \<le> of_int b \<Longrightarrow> round_half_even x \<le> b"
proof (cases "x = of_int b")
  case True
  then show ?thesis by (simp add: round_half_even_def)
next
  case False
  assume "x \<le> of_int b"
  with False have "x < of_int b" by simp
  then have "\<lfloor>x\<rfloor> < b" by (simp add: floor_less_iff)
  then show ?thesis by (auto simp: round_half_even_def Let_def)
qed

lemma round_double_normal:
  assumes "pow2 e \<le> q" and "q < pow2 (e + 1)" and "- 1022 \<le> e" and "e \<le> 1022"
  shows "round_double q = Fin (of_int (round_half_even (q / pow2 (e - 52))) * pow2 (e - 52))"
    and "\<bar>of_int (round_half_even (q / pow2 (e - 52))) * pow2 (e - 52) - q\<bar> \<le> pow2 (e - 53)"
    and "pow2 e \<le> of_int (round_half_even (q / pow2 (e - 52))) * pow2 (e - 52)"
    and "of_int (round_half_even (q / pow2 (e - 52))) * pow2 (e - 52) \<le> pow2 (e + 1)"
proof -
  define u where "u = pow2 (e - 52)"
  define z where "z = round_half_even (q / u)"
  have u: "0 < u" by (simp add: u_def)
  have q: "0 < q" using assms(1) pow2_pos [of e] by linarith
  have il: "ilog2 q = e" using assms(1,2) by (rule ilog2_unique)
  have p: "pow2 52 = 2 ^ 52" "pow2 53 = 2 ^ 53" "pow2 (- 1) = 1 / 2"
    by (simp_all add: pow2_def)
  have e52: "pow2 e = 2 ^ 52 * u"
    using pow2_add [of 52 "e - 52"] by (simp add: u_def p)
  have e53: "pow2 (e + 1) = 2 ^ 53 * u"
    using pow2_add [of 53 "e - 52"] by (simp add: u_def p add.commute)
  have h: "pow2 (e - 53) = u / 2"
    using pow2_add [of "- 1" "e - 52"] by (simp add: u_def p)
  from assms(1) e52 u have "of_int (2 ^ 52) \<le> q / u" by (simp add: field_simps)
  then have z_lo: "2 ^ 52 \<le> z" unfolding z_def by (rule round_half_even_ge)
  from assms(2) e53 u have "q / u \<le> of_int (2 ^ 53)" by (simp add: field_simps)
  then have z_hi: "z \<le> 2 ^ 53" unfolding z_def by (rule round_half_even_le)
  have "(of_int (2 ^ 52) :: rat) \<le> of_int z" using z_lo by (simp only: of_int_le_iff)
  then have lo: "pow2 e \<le> of_int z * u" using u by (simp add: e52)
  have "(of_int z :: rat) \<le> of_int (2 ^ 53)" using z_hi by (simp only: of_int_le_iff)
  then have hi: "of_int z * u \<le> pow2 (e + 1)" using u by (simp add: e53)
  have "\<bar>of_int z - q / u\<bar> \<le> 1 / 2" unfolding z_def by (rule round_half_even_error)
  then have "\<bar>of_int z - q / u\<bar> * u \<le> 1 / 2 * u" using u by (intro mult_right_mono) simp_all
  moreover have "\<bar>of_int z - q / u\<bar> * u = \<bar>of_int z * u - q\<bar>"
    using u by (simp add: abs_mult_pos' [symmetric] field_simps abs_mult)
  ultimately have err: "\<bar>of_int z * u - q\<bar> \<le> pow2 (e - 53)" by (simp add: h)
  have "pow2 (e + 1) \<le> pow2 1023" using assms(4) by (intro pow2_mono) simp
  also have "\<dots> < pow2 1024" by (intro pow2_strict_mono) simp
  finally have big: "\<not> pow2 1024 \<le> of_int z * u" using hi by linarith
  have nz: "of_int z * u \<noteq> 0" using lo pow2_pos [of e] by linarith
  from assms(3) have mx: "max e (- 1022) = e" by simp
  have ab: "\<bar>q\<bar> = q" using q by simp
  show "round_double q = Fin (of_int (round_half_even (q / pow2 (e - 52))) * pow2 (e - 52))"
    unfolding round_double_def Let_def ab il mx
    using q big nz by (simp add: u_def z_def)
  show "\<bar>of_int (round_half_even (q / pow2 (e - 52))) * pow2 (e - 52) - q\<bar> \<le> pow2 (e - 53)"
    using err by (simp add: u_def z_def)
  show "pow2 e \<le> of_int (round_half_even (q / pow2 (e - 52))) * pow2 (e - 52)"
    using lo by (simp add: u_def z_def)
  show "of_int (round_half_even (q / pow2 (e - 52))) * pow2 (e - 52) \<le> pow2 (e + 1)"
    using hi by (simp add: u_def z_def)
qed

lemma round_double_relative:
  assumes "pow2 (- 1022) \<le> q" and "q < pow2 1023"
  shows "round_double q = Fin (magnitude (round_double q))"
    and "q * (1 - 1 / 2 ^ 53) \<le> magnitude (round_double q)"
    and "magnitude (round_double q) \<le> q * (1 + 1 / 2 ^ 53)"
proof -
  define e where "e = ilog2 q"
  have q: "0 < q" using assms(1) pow2_pos [of "- 1022"] by linarith
  from ilog2_bounds [OF q] have b: "pow2 e \<le> q" "q < pow2 (e + 1)" by (simp_all add: e_def)
  have lo: "- 1022 \<le> e"
  proof (rule ccontr)
    assume "\<not> - 1022 \<le> e"
    then have "pow2 (e + 1) \<le> pow2 (- 1022)" by (intro pow2_mono) simp
    with b(2) assms(1) show False by linarith
  qed
  have hi: "e \<le> 1022"
  proof (rule ccontr)
    assume "\<not> e \<le> 1022"
    then have "pow2 1023 \<le> pow2 e" by (intro pow2_mono) simp
    with b(1) assms(2) show False by linarith
  qed
  define r where "r = of_int (round_half_even (q / pow2 (e - 52))) * pow2 (e - 52)"
  from round_double_normal [OF b lo hi]
  have rd: "round_double q = Fin r" and err: "\<bar>r - q\<bar> \<le> pow2 (e - 53)"
    by (simp_all add: r_def)
  have "pow2 (- 53) = 1 / 2 ^ 53" by (simp add: pow2_def)
  then have "pow2 (e - 53) = pow2 e / 2 ^ 53"
    using pow2_add [of e "- 53"] by simp
  also have "\<dots> \<le> q / 2 ^ 53" using b(1) by (simp add: divide_right_mono)
  finally have "\<bar>r - q\<bar> \<le> q / 2 ^ 53" using err by linarith
  then have "q - q / 2 ^ 53 \<le> r" "r \<le> q + q / 2 ^ 53" by linarith+
  then show "q * (1 - 1 / 2 ^ 53) \<le> magnitude (round_double q)"
    and "magnitude (round_double q) \<le> q * (1 + 1 / 2 ^ 53)"
    by (simp_all add: rd algebra_simps)
  show "round_double q = Fin (magnitude (round_double q))" by (simp add: rd)
qed

lemma pow2_numeral_bounds:
  "pow2 (- 1022) \<le> 1 / 2 ^ 23" "(2::rat) ^ 61 \<le> pow2 1023"
proof -
  have "pow2 (- 1022) \<le> pow2 (- 23)" by (intro pow2_mono) simp
  then show "pow2 (- 1022) \<le> 1 / 2 ^ 23" by (simp add: pow2_def)
  have "pow2 61 \<le> pow2 1023" by (intro pow2_mono) simp
  then show "(2::rat) ^ 61 \<le> pow2 1023" by (simp add: pow2_def)
qed

lemma round_double_window:
  assumes "1 / 2 ^ 23 \<le> q" and "q < 2 ^ 61"
  shows "round_double q = Fin (magnitude (round_double q))"
    and "q * (1 - 1 / 2 ^ 53) \<le> magnitude (round_double q)"
    and "magnitude (round_double q) \<le> q * (1 + 1 / 2 ^ 53)"
proof -
  from assms pow2_numeral_bounds have "pow2 (- 1022) \<le> q" "q < pow2 1023" by linarith+
  from round_double_relative [OF this]
  show "round_double q = Fin (magnitude (round_double q))"
    and "q * (1 - 1 / 2 ^ 53) \<le> magnitude (round_double q)"
    and "magnitude (round_double q) \<le> q * (1 + 1 / 2 ^ 53)"
    by simp_all
qed

lemma cost_of_accuracy:
  fixes n :: nat and p :: rat
  assumes "0 < n" and "n < 2 ^ 53" and "4 / 5 \<le> p" and "p \<le> 30"
  defines "E \<equiv> of_nat n / 1000000 * p"
  defines "x \<equiv> magnitude (cost_of (Fin (of_nat n)) (Fin p))"
  shows "cost_of (Fin (of_nat n)) (Fin p) = Fin x"
    and "E * (1 - 1 / 2 ^ 53) ^ 2 \<le> x" and "x \<le> E * (1 + 1 / 2 ^ 53) ^ 2"
    and "1 / 2 ^ 23 \<le> x" and "x < 2 ^ 60"
proof -
  define q1 :: rat where "q1 = of_nat n / 1000000"
  define r1 where "r1 = magnitude (round_double q1)"
  have n1: "(1::rat) \<le> of_nat n" using assms(1) by simp
  have "(of_nat n :: rat) < of_nat (2 ^ 53)" using assms(2) by (simp only: of_nat_less_iff)
  then have n2: "(of_nat n :: rat) < 2 ^ 53" by simp
  have q1_lo: "1 / 1000000 \<le> q1" using n1 by (simp add: q1_def divide_right_mono)
  have q1_hi: "q1 < 2 ^ 53 / 1000000" using n2 by (simp add: q1_def divide_strict_right_mono)
  have w1: "1 / 2 ^ 23 \<le> q1" "q1 < 2 ^ 61" using q1_lo q1_hi by simp_all
  from round_double_window [OF w1]
  have r1: "round_double q1 = Fin r1" and r1_lo: "q1 * (1 - 1 / 2 ^ 53) \<le> r1"
    and r1_hi: "r1 \<le> q1 * (1 + 1 / 2 ^ 53)"
    by (simp_all add: r1_def)
  have d: "js_div (Fin (of_nat n)) (Fin 1000000) = Fin r1"
    using assms(1) by (simp add: js_div_def r1 [unfolded q1_def])
  have r1_lo': "1 / 2 ^ 21 \<le> r1" using r1_lo q1_lo by simp
  have r1_hi': "r1 < 2 ^ 54 / 1000000" using r1_hi q1_hi by simp
  have p: "0 < p" using assms(3) by simp
  define q2 where "q2 = r1 * p"
  define r2 where "r2 = magnitude (round_double q2)"
  have "1 / 2 ^ 21 * (4 / 5) \<le> r1 * p"
    using r1_lo' assms(3) by (intro mult_mono) simp_all
  then have q2_lo: "1 / 2 ^ 22 \<le> q2" by (simp add: q2_def)
  have "r1 * p \<le> 2 ^ 54 / 1000000 * 30"
    using r1_hi' assms(4) r1_lo' p by (intro mult_mono) simp_all
  then have q2_hi: "q2 < 2 ^ 59" by (simp add: q2_def)
  have w2: "1 / 2 ^ 23 \<le> q2" "q2 < 2 ^ 61" using q2_lo q2_hi by simp_all
  from round_double_window [OF w2]
  have r2: "round_double q2 = Fin r2" and r2_lo: "q2 * (1 - 1 / 2 ^ 53) \<le> r2"
    and r2_hi: "r2 \<le> q2 * (1 + 1 / 2 ^ 53)"
    by (simp_all add: r2_def)
  have r1_pos: "r1 \<noteq> 0" using r1_lo' by auto
  have m: "js_mul (Fin r1) (Fin p) = Fin r2"
    using r1_pos p by (simp add: js_mul_def r2 [unfolded q2_def])
  have c: "cost_of (Fin (of_nat n)) (Fin p) = Fin r2"
    by (simp add: cost_of_def d m)
  then have x: "x = r2" by (simp add: x_def)
  show "cost_of (Fin (of_nat n)) (Fin p) = Fin x" by (simp add: c x)
  have E: "E = q1 * p" by (simp add: E_def q1_def)
  have "q1 * (1 - 1 / 2 ^ 53) * p \<le> q2"
    unfolding q2_def using r1_lo p by (intro mult_right_mono) simp_all
  then have "q1 * (1 - 1 / 2 ^ 53) * p * (1 - 1 / 2 ^ 53) \<le> q2 * (1 - 1 / 2 ^ 53)"
    by (intro mult_right_mono) simp_all
  with r2_lo show "E * (1 - 1 / 2 ^ 53) ^ 2 \<le> x"
    by (simp add: E x power2_eq_square algebra_simps)
  have "q2 \<le> q1 * (1 + 1 / 2 ^ 53) * p"
    unfolding q2_def using r1_hi p by (intro mult_right_mono) simp_all
  then have "q2 * (1 + 1 / 2 ^ 53) \<le> q1 * (1 + 1 / 2 ^ 53) * p * (1 + 1 / 2 ^ 53)"
    by (intro mult_right_mono) simp_all
  with r2_hi show "x \<le> E * (1 + 1 / 2 ^ 53) ^ 2"
    by (simp add: E x power2_eq_square algebra_simps)
  show "1 / 2 ^ 23 \<le> x" using r2_lo q2_lo by (simp add: x)
  show "x < 2 ^ 60" using r2_hi q2_hi by (simp add: x)
qed

lemma cost_of_zero:
  assumes "0 < p"
  shows "cost_of (Fin 0) (Fin p) = Fin 0"
  using assms by (simp add: cost_of_def js_div_def js_mul_def signed_zero_def)

lemma cost_of_bounds:
  fixes n :: nat and p :: rat
  assumes "n < 2 ^ 53" and "4 / 5 \<le> p" and "p \<le> 30"
  defines "E \<equiv> of_nat n / 1000000 * p"
  defines "x \<equiv> magnitude (cost_of (Fin (of_nat n)) (Fin p))"
  shows "cost_of (Fin (of_nat n)) (Fin p) = Fin x"
    and "E * (1 - 1 / 2 ^ 53) ^ 2 \<le> x" and "x \<le> E * (1 + 1 / 2 ^ 53) ^ 2"
    and "x = 0 \<or> 1 / 2 ^ 23 \<le> x" and "x < 2 ^ 60"
proof -
  have "cost_of (Fin (of_nat n)) (Fin p) = Fin x \<and>
        E * (1 - 1 / 2 ^ 53) ^ 2 \<le> x \<and> x \<le> E * (1 + 1 / 2 ^ 53) ^ 2 \<and>
        (x = 0 \<or> 1 / 2 ^ 23 \<le> x) \<and> x < 2 ^ 60"
  proof (cases "n = 0")
    case True
    from assms(2) have "0 < p" by simp
    from cost_of_zero [OF this] True show ?thesis by (simp add: x_def E_def)
  next
    case False
    then have "0 < n" by simp
    from cost_of_accuracy [OF this assms(1-3)] show ?thesis by (simp add: x_def E_def)
  qed
  then show "cost_of (Fin (of_nat n)) (Fin p) = Fin x"
    and "E * (1 - 1 / 2 ^ 53) ^ 2 \<le> x" and "x \<le> E * (1 + 1 / 2 ^ 53) ^ 2"
    and "x = 0 \<or> 1 / 2 ^ 23 \<le> x" and "x < 2 ^ 60"
    by simp_all
qed

lemma total_cost_accuracy:
  fixes a b :: nat and pin pout :: rat
  assumes "a < 2 ^ 53" and "b < 2 ^ 53"
    and "4 / 5 \<le> pin" and "pin \<le> 30" and "4 / 5 \<le> pout" and "pout \<le> 30"
  defines "E \<equiv> of_nat a / 1000000 * pin + of_nat b / 1000000 * pout"
  defines "t \<equiv> magnitude (js_plus (cost_of (Fin (of_nat a)) (Fin pin))
                                   (cost_of (Fin (of_nat b)) (Fin pout)))"
  shows "js_plus (cost_of (Fin (of_nat a)) (Fin pin)) (cost_of (Fin (of_nat b)) (Fin pout)) = Fin t"
    and "\<bar>t - E\<bar> \<le> E / 2 ^ 51"
proof -
  define X where "X = of_nat a / 1000000 * pin"
  define Y where "Y = of_nat b / 1000000 * pout"
  define x where "x = magnitude (cost_of (Fin (of_nat a)) (Fin pin))"
  define y where "y = magnitude (cost_of (Fin (of_nat b)) (Fin pout))"
  note cx = cost_of_bounds [OF assms(1,3,4), folded X_def x_def]
  note cy = cost_of_bounds [OF assms(2,5,6), folded Y_def y_def]
  have X0: "0 \<le> X" using assms(3) by (simp add: X_def)
  have Y0: "0 \<le> Y" using assms(5) by (simp add: Y_def)
  have E: "E = X + Y" by (simp add: E_def X_def Y_def)
  have x0: "0 \<le> x" using cx(4) by auto
  have y0: "0 \<le> y" using cy(4) by auto
  have sum_lo: "(X + Y) * (1 - 1 / 2 ^ 53) ^ 2 \<le> x + y"
    using cx(2) cy(2) by (simp add: algebra_simps)
  have sum_hi: "x + y \<le> (X + Y) * (1 + 1 / 2 ^ 53) ^ 2"
    using cx(3) cy(3) by (simp add: algebra_simps)
  have "js_plus (Fin x) (Fin y) = Fin t \<and> (X + Y) * (1 - 1 / 2 ^ 53) ^ 3 \<le> t \<and>
        t \<le> (X + Y) * (1 + 1 / 2 ^ 53) ^ 3"
  proof (cases "x = 0 \<and> y = 0")
    case True
    then have p: "js_plus (Fin x) (Fin y) = Fin 0" by (simp add: js_plus_def signed_zero_def)
    then have t: "t = 0" by (simp add: t_def cx(1) cy(1))
    from True sum_lo sum_hi have "X + Y = 0" using X0 Y0
      by (simp add: mult_le_0_iff zero_le_mult_iff)
    with p t show ?thesis by simp
  next
    case False
    with cx(4) cy(4) x0 y0 have w: "1 / 2 ^ 23 \<le> x + y" by linarith
    from cx(5) cy(5) have w': "x + y < 2 ^ 61" by simp
    from False have p: "js_plus (Fin x) (Fin y) = round_double (x + y)"
      by (auto simp: js_plus_def)
    then have t: "t = magnitude (round_double (x + y))" by (simp add: t_def cx(1) cy(1))
    from round_double_window [OF w w']
    have r: "round_double (x + y) = Fin t" and lo: "(x + y) * (1 - 1 / 2 ^ 53) \<le> t"
      and hi: "t \<le> (x + y) * (1 + 1 / 2 ^ 53)"
      by (simp_all add: t)
    have "(X + Y) * (1 - 1 / 2 ^ 53) ^ 2 * (1 - 1 / 2 ^ 53) \<le> (x + y) * (1 - 1 / 2 ^ 53)"
      using sum_lo by (intro mult_right_mono) simp_all
    with lo have l3: "(X + Y) * (1 - 1 / 2 ^ 53) ^ 3 \<le> t"
      by (simp add: power3_eq_cube power2_eq_square algebra_simps)
    have "(x + y) * (1 + 1 / 2 ^ 53) \<le> (X + Y) * (1 + 1 / 2 ^ 53) ^ 2 * (1 + 1 / 2 ^ 53)"
      using sum_hi by (intro mult_right_mono) simp_all
    with hi have h3: "t \<le> (X + Y) * (1 + 1 / 2 ^ 53) ^ 3"
      by (simp add: power3_eq_cube power2_eq_square algebra_simps)
    from p r l3 h3 show ?thesis by simp
  qed
  then have p: "js_plus (Fin x) (Fin y) = Fin t"
    and l3: "(X + Y) * (1 - 1 / 2 ^ 53) ^ 3 \<le> t" and h3: "t \<le> (X + Y) * (1 + 1 / 2 ^ 53) ^ 3"
    by simp_all
  show "js_plus (cost_of (Fin (of_nat a)) (Fin pin)) (cost_of (Fin (of_nat b)) (Fin pout)) = Fin t"
    using p by (simp add: cx(1) cy(1))
  define S where "S = X + Y"
  define d :: rat where "d = 1 / 2 ^ 51"
  define lo3 :: rat where "lo3 = (1 - 1 / 2 ^ 53) ^ 3"
  define hi3 :: rat where "hi3 = (1 + 1 / 2 ^ 53) ^ 3"
  have c1: "1 - d \<le> lo3" unfolding d_def lo3_def by (simp add: power3_eq_cube)
  have c2: "hi3 \<le> 1 + d" unfolding d_def hi3_def by (simp add: power3_eq_cube)
  have S0: "0 \<le> S" using X0 Y0 by (simp add: S_def)
  have l3': "S * lo3 \<le> t" using l3 by (simp only: S_def lo3_def)
  have h3': "t \<le> S * hi3" using h3 by (simp only: S_def hi3_def)
  have "S * (1 - d) \<le> S * lo3" using c1 S0 by (rule mult_left_mono)
  with l3' have lo: "S - S * d \<le> t" by (simp add: right_diff_distrib)
  have "S * hi3 \<le> S * (1 + d)" using c2 S0 by (rule mult_left_mono)
  with h3' have hi: "t \<le> S + S * d" by (simp add: distrib_left)
  have "E / 2 ^ 51 = S * d" by (simp add: E S_def d_def)
  with lo hi show "\<bar>t - E\<bar> \<le> E / 2 ^ 51" unfolding E S_def [symmetric] by linarith
qed

lemma floor_numeral_div:
  "\<lfloor>(numeral a :: rat) / numeral b\<rfloor> = numeral a div numeral b"
  using floor_divide_of_int_eq [of "numeral a" "numeral b", where ?'a = rat] by simp

lemmas eval_round = pow2_def round_half_even_def Let_def floor_numeral_div

lemma example_input_cost:
  "cost_of (Fin 1000) (Fin 3) = Fin (3458764513820541 / 1152921504606846976)"
proof -
  have "js_div (Fin 1000) (Fin 1000000) = Fin (1152921504606847 / 1152921504606846976)"
    using round_double_normal(1) [of "- 10" "1000 / 1000000"]
    by (simp add: js_div_def eval_round)
  moreover have "js_mul (Fin (1152921504606847 / 1152921504606846976)) (Fin 3)
      = Fin (3458764513820541 / 1152921504606846976)"
    using round_double_normal(1) [of "- 9" "1152921504606847 / 1152921504606846976 * 3"]
    by (simp add: js_mul_def eval_round)
  ultimately show ?thesis by (simp add: cost_of_def)
qed

lemma example_output_cost:
  "cost_of (Fin 2000) (Fin 15) = Fin (1080863910568919 / 36028797018963968)"
proof -
  have "js_div (Fin 2000) (Fin 1000000) = Fin (1152921504606847 / 576460752303423488)"
    using round_double_normal(1) [of "- 9" "2000 / 1000000"]
    by (simp add: js_div_def eval_round)
  moreover have "js_mul (Fin (1152921504606847 / 576460752303423488)) (Fin 15)
      = Fin (1080863910568919 / 36028797018963968)"
    using round_double_normal(1) [of "- 6" "1152921504606847 / 576460752303423488 * 15"]
    by (simp add: js_mul_def eval_round)
  ultimately show ?thesis by (simp add: cost_of_def)
qed

lemma example_literal:
  "round_double (33 / 1000) = Fin (1188950301625811 / 36028797018963968)"
  using round_double_normal(1) [of "- 5" "33 / 1000"]
  by (simp add: eval_round)

lemma example_total:
  "js_plus (cost_of (Fin 1000) (Fin 3)) (cost_of (Fin 2000) (Fin 15))
     = Fin (1188950301625811 / 36028797018963968)"
  using round_double_normal(1) [of "- 5"
      "3458764513820541 / 1152921504606846976 + 1080863910568919 / 36028797018963968"]
  by (simp add: example_input_cost example_output_cost js_plus_def eval_round)

lemma haiku_price: "round_double (80 / 100) = Fin (3602879701896397 / 4503599627370496)"
  using round_double_normal(1) [of "- 1" "80 / 100"]
  by (simp add: eval_round)

lemma registry_prices:
  assumes "(p, c) \<in> set PROVIDERS"
  shows "costPer1M_input c = Fin (magnitude (costPer1M_input c))"
    and "costPer1M_output c = Fin (magnitude (costPer1M_output c))"
    and "4 / 5 \<le> magnitude (costPer1M_input c)" and "magnitude (costPer1M_input c) \<le> 30"
    and "4 / 5 \<le> magnitude (costPer1M_output c)" and "magnitude (costPer1M_output c) \<le> 30"
  using assms by (auto simp: PROVIDERS_def)

lemma registry_total_cost:
  assumes "(p, c) \<in> set PROVIDERS" and "a < 2 ^ 53" and "b < 2 ^ 53"
  shows "total_cost c (Fin (of_nat a)) (Fin (of_nat b))
           = Fin (magnitude (total_cost c (Fin (of_nat a)) (Fin (of_nat b))))"
    and "\<bar>magnitude (total_cost c (Fin (of_nat a)) (Fin (of_nat b))) - exact_cost c a b\<bar>
           \<le> exact_cost c a b / 2 ^ 51"
proof -
  note r = registry_prices [OF assms(1)]
  from total_cost_accuracy [OF assms(2,3) r(3-6)] r(1,2)
  show "total_cost c (Fin (of_nat a)) (Fin (of_nat b))
           = Fin (magnitude (total_cost c (Fin (of_nat a)) (Fin (of_nat b))))"
    and "\<bar>magnitude (total_cost c (Fin (of_nat a)) (Fin (of_nat b))) - exact_cost c a b\<bar>
           \<le> exact_cost c a b / 2 ^ 51"
    by (simp_all add: total_cost_def exact_cost_def)
qed

lemma registry_zero_cost:
  assumes "(p, c) \<in> set PROVIDERS"
  shows "cost_of (Fin 0) (costPer1M_input c) = Fin 0"
    and "cost_of (Fin 0) (costPer1M_output c) = Fin 0"
    and "total_cost c (Fin 0) (Fin 0) = Fin 0"
proof -
  note r = registry_prices [OF assms]
  from r(3,5) have p: "0 < magnitude (costPer1M_input c)" "0 < magnitude (costPer1M_output c)"
    by linarith+
  from cost_of_zero [OF p(1)] r(1)
  show i: "cost_of (Fin 0) (costPer1M_input c) = Fin 0" by simp
  from cost_of_zero [OF p(2)] r(2)
  show o: "cost_of (Fin 0) (costPer1M_output c) = Fin 0" by simp
  from i o show "total_cost c (Fin 0) (Fin 0) = Fin 0"
    by (simp add: total_cost_def js_plus_def signed_zero_def)
qed

section \<open>Validation of the request body\<close>

text \<open>
  C1, as the specification has it: the request is refused with a 400 and without an
  upstream call exactly when \<^verbatim>\<open>responses\<close> is missing, is not a mapping, or has no keys.
  The handler does not look at the keys. With \<^verbatim>\<open>{"responses": {}}\<close> and a configured key
  the request passes the check, the Anthropic endpoint is called once, and the reply is a 200.
\<close>

theorem empty_responses_counterexample:
  "status (reply (analyze sample_runtime (JObj [(''responses'', JObj [])]))) = 200 \<and>
   map url (calls (analyze sample_runtime (JObj [(''responses'', JObj [])])))
     = [''https://api.anthropic.com/v1/messages'']"
  by (simp add: run_defs)

text \<open>
  C1, amended: the handler answers 400 \<^verbatim>\<open>Invalid request\<close> exactly when the body is not
  \<^verbatim>\<open>null\<close> and its \<^verbatim>\<open>responses\<close> member is missing or is neither an object nor an
  array (that is: \<^verbatim>\<open>null\<close>, a boolean, a number or a string); every object, the empty one
  included, and every array passes. When it answers so, no upstream call has been made.
\<close>

theorem responses_validation:
  "(reply (analyze rt reqBody) = invalid_request) =
     (reqBody \<noteq> JNull \<and> \<not> object_like (get_optional (Some reqBody) ''responses'')) \<and>
   (reply (analyze rt reqBody) = invalid_request \<longrightarrow> calls (analyze rt reqBody) = [])"
proof (cases "reqBody = JNull \<or> \<not> object_like (get_optional (Some reqBody) ''responses'')")
  case True
  then show ?thesis
    by (auto simp: analyze_def try_block_eq invalid_request_neq)
next
  case False
  obtain r cs ls where
    w: "with_provider rt (get_optional (Some reqBody) ''responses'') (request_provider reqBody)
          = (r, cs, ls)"
    using prod_cases3 by blast
  show ?thesis
  proof (cases r)
    case (Inl e)
    with False w show ?thesis by (simp add: analyze_def try_block_eq invalid_request_neq)
  next
    case (Inr resp)
    with w have "resp \<noteq> invalid_request"
      using with_provider_reply[of rt _ _ resp cs ls] invalid_request_neq statuses by fastforce
    with False w Inr show ?thesis by (simp add: analyze_def try_block_eq)
  qed
qed

theorem responses_validation_witness:
  "reply (analyze sample_runtime (JObj [(''provider'', JStr ''claude'')])) = invalid_request \<and>
   calls (analyze sample_runtime (JObj [(''provider'', JStr ''claude'')])) = []"
  using responses_validation [of sample_runtime "JObj [(''provider'', JStr ''claude'')]"]
  by (simp add: own_property_def)

section \<open>Rate limiting\<close>

lemma admit_other:
  "client' \<noteq> client \<Longrightarrow> snd (admit store client' now) client = store client"
  by (simp add: admit_def Let_def)

lemma admit_live:
  assumes "store client = Some s" and "now - windowStart s < windowMs"
  shows "admit store client now =
           (if max_requests < count s + 1 then RateLimited (windowMs - (now - windowStart s))
            else Admitted,
            store(client \<mapsto> s\<lparr>count := count s + 1\<rparr>))"
  using assms by (simp add: admit_def current_window_def Let_def)

lemma admit_fresh:
  assumes "store client = None \<or> (\<exists>s. store client = Some s \<and> windowMs \<le> now - windowStart s)"
  shows "admit store client now =
           (Admitted, store(client \<mapsto> \<lparr>windowStart = now, count = 1\<rparr>))"
  using assms by (auto simp: admit_def current_window_def Let_def max_requests_def)

text \<open>Within one window: the decisions for the client's requests, by their rank in the window.\<close>

lemma serve_window:
  assumes "store client = Some \<lparr>windowStart = t0, count = k\<rparr>"
    and "\<forall>ev \<in> set evs. fst ev = client \<longrightarrow> snd ev - t0 < windowMs"
    and "i < length evs" and "fst (evs ! i) = client"
  shows "fst (serve store evs) ! i =
           (if k + requests_so_far client evs (Suc i) \<le> max_requests then Admitted
            else RateLimited (windowMs - (snd (evs ! i) - t0)))"
  using assms
proof (induction evs arbitrary: store k i)
  case Nil
  then show ?case by simp
next
  case (Cons ev evs)
  obtain c t where ev: "ev = (c, t)" by (cases ev)
  obtain d store' where a: "admit store c t = (d, store')" by (cases "admit store c t")
  obtain ds store'' where s: "serve store' evs = (ds, store'')" by (cases "serve store' evs")
  show ?case
  proof (cases "c = client")
    case True
    from Cons.prems(2) ev True have live: "t - t0 < windowMs" by simp
    from admit_live [of store client "\<lparr>windowStart = t0, count = k\<rparr>" t] Cons.prems(1) live a True
    have d: "d = (if max_requests < k + 1 then RateLimited (windowMs - (t - t0)) else Admitted)"
      and st: "store' client = Some \<lparr>windowStart = t0, count = Suc k\<rparr>"
      by auto
    show ?thesis
    proof (cases i)
      case 0
      with ev a s d True show ?thesis by (auto simp: requests_so_far_def)
    next
      case (Suc j)
      with Cons.prems have j: "j < length evs" "fst (evs ! j) = client"
        and w: "\<forall>ev \<in> set evs. fst ev = client \<longrightarrow> snd ev - t0 < windowMs"
        by auto
      from Cons.IH [of store' "Suc k" j, OF st w j] s
      have "ds ! j = (if Suc k + requests_so_far client evs (Suc j) \<le> max_requests then Admitted
            else RateLimited (windowMs - (snd (evs ! j) - t0)))"
        by simp
      with Suc ev a s True show ?thesis by (simp add: requests_so_far_def)
    qed
  next
    case False
    from admit_other [of c client store t] False a Cons.prems(1)
    have st: "store' client = Some \<lparr>windowStart = t0, count = k\<rparr>" by simp
    from Cons.prems(4) ev False obtain j where i: "i = Suc j" by (cases i) auto
    with Cons.prems have j: "j < length evs" "fst (evs ! j) = client"
      and w: "\<forall>ev \<in> set evs. fst ev = client \<longrightarrow> snd ev - t0 < windowMs"
      by auto
    from Cons.IH [of store' k j, OF st w j] s
    have "ds ! j = (if k + requests_so_far client evs (Suc j) \<le> max_requests then Admitted
            else RateLimited (windowMs - (snd (evs ! j) - t0)))"
      by simp
    with i ev a s False show ?thesis by (simp add: requests_so_far_def)
  qed
qed

lemma serve_state:
  assumes "store client = Some \<lparr>windowStart = t0, count = k\<rparr>"
    and "\<forall>ev \<in> set evs. fst ev = client \<longrightarrow> snd ev - t0 < windowMs"
  shows "snd (serve store evs) client =
           Some \<lparr>windowStart = t0, count = k + requests_so_far client evs (length evs)\<rparr>"
  using assms
proof (induction evs arbitrary: store k)
  case Nil
  then show ?case by (simp add: requests_so_far_def)
next
  case (Cons ev evs)
  obtain c t where ev: "ev = (c, t)" by (cases ev)
  obtain d store' where a: "admit store c t = (d, store')" by (cases "admit store c t")
  obtain ds store'' where s: "serve store' evs = (ds, store'')" by (cases "serve store' evs")
  from Cons.prems(2) have w: "\<forall>ev \<in> set evs. fst ev = client \<longrightarrow> snd ev - t0 < windowMs"
    by simp
  show ?case
  proof (cases "c = client")
    case True
    from Cons.prems(2) ev True have live: "t - t0 < windowMs" by simp
    from admit_live [of store client "\<lparr>windowStart = t0, count = k\<rparr>" t] Cons.prems(1) live a True
    have st: "store' client = Some \<lparr>windowStart = t0, count = Suc k\<rparr>" by auto
    from Cons.IH [of store' "Suc k", OF st w] ev a s True show ?thesis by (simp add: requests_so_far_def)
  next
    case False
    from admit_other [of c client store t] False a Cons.prems(1)
    have st: "store' client = Some \<lparr>windowStart = t0, count = k\<rparr>" by simp
    from Cons.IH [of store' k, OF st w] ev a s False show ?thesis by (simp add: requests_so_far_def)
  qed
qed

lemma serve_Cons:
  "serve store ((c, t) # evs) =
     (fst (admit store c t) # fst (serve (snd (admit store c t)) evs),
      snd (serve (snd (admit store c t)) evs))"
  by (simp split: prod.splits)

text \<open>
  C2, on the limiter as the specification describes it, with the window of fifteen minutes
  and the maximum of ten that \<^verbatim>\<open>server.js\<close> configures: take a client with no live window at \<open>t0\<close>, its request at \<open>t0\<close>, and any
  later run of requests of any clients in which this client's requests arrive less than
  a window after \<open>t0\<close>. The request at \<open>t0\<close> is admitted; each later request of the client
  is admitted while it is at most the tenth of the window, and from the eleventh on it is
  rejected with \<open>retryAfter = windowMs - (now - t0)\<close>, which is positive; and after the run, a
  request of the client a full window after \<open>t0\<close> or later is admitted again.
\<close>

theorem fixed_window_admission:
  assumes "store client = None \<or> (\<exists>s. store client = Some s \<and> windowMs \<le> t0 - windowStart s)"
    and "\<forall>ev \<in> set evs. fst ev = client \<longrightarrow> snd ev - t0 < windowMs"
  shows "windowMs = 900000 \<and> max_requests = 10 \<and>
         fst (serve store ((client, t0) # evs)) ! 0 = Admitted \<and>
         (\<forall>i < length evs. fst (evs ! i) = client \<longrightarrow>
            (Suc (requests_so_far client evs (Suc i)) \<le> max_requests \<longrightarrow>
               fst (serve store ((client, t0) # evs)) ! Suc i = Admitted) \<and>
            (max_requests < Suc (requests_so_far client evs (Suc i)) \<longrightarrow>
               fst (serve store ((client, t0) # evs)) ! Suc i
                 = RateLimited (windowMs - (snd (evs ! i) - t0)) \<and>
               0 < windowMs - (snd (evs ! i) - t0))) \<and>
         (\<forall>t'. windowMs \<le> t' - t0 \<longrightarrow>
            fst (admit (snd (serve store ((client, t0) # evs))) client t') = Admitted)"
proof -
  let ?store' = "store(client \<mapsto> \<lparr>windowStart = t0, count = 1\<rparr>)"
  from admit_fresh [of store client t0, OF assms(1)]
  have a: "admit store client t0 = (Admitted, ?store')" .
  have st: "?store' client = Some \<lparr>windowStart = t0, count = 1\<rparr>" by simp
  have first: "fst (serve store ((client, t0) # evs)) ! 0 = Admitted"
    by (simp only: serve_Cons a fst_conv snd_conv nth_Cons_0)
  have rest: "fst (serve store ((client, t0) # evs)) ! Suc i =
           (if Suc (requests_so_far client evs (Suc i)) \<le> max_requests then Admitted
            else RateLimited (windowMs - (snd (evs ! i) - t0)))"
    if "i < length evs" "fst (evs ! i) = client" for i
    using serve_window [of ?store' client t0 1 evs i, OF st assms(2) that]
    by (simp only: serve_Cons a fst_conv snd_conv nth_Cons_Suc) simp
  have pos: "0 < windowMs - (snd (evs ! i) - t0)"
    if "i < length evs" "fst (evs ! i) = client" for i
  proof -
    from that have "evs ! i \<in> set evs" by simp
    with assms(2) that(2) show ?thesis by auto
  qed
  from serve_state [of ?store' client t0 1 evs, OF st assms(2)]
  have fin: "snd (serve store ((client, t0) # evs)) client =
      Some \<lparr>windowStart = t0, count = 1 + requests_so_far client evs (length evs)\<rparr>"
    by (simp only: serve_Cons a fst_conv snd_conv)
  have later: "fst (admit (snd (serve store ((client, t0) # evs))) client t') = Admitted"
    if "windowMs \<le> t' - t0" for t'
    using admit_fresh [of "snd (serve store ((client, t0) # evs))" client t'] fin that
    by simp
  from first rest pos later show ?thesis
    by (auto simp: windowMs_def max_requests_def)
qed

theorem fixed_window_admission_witness:
  "fst (serve no_store ((''203.0.113.7'', 0) # rapid_requests)) ! 0 = Admitted \<and>
   fst (serve no_store ((''203.0.113.7'', 0) # rapid_requests)) ! 10 = Admitted \<and>
   fst (serve no_store ((''203.0.113.7'', 0) # rapid_requests)) ! 11 = RateLimited 899900 \<and>
   fst (admit (snd (serve no_store ((''203.0.113.7'', 0) # rapid_requests))) ''203.0.113.7'' 900000)
     = Admitted"
proof -
  have f: "no_store ''203.0.113.7'' = None" by (simp add: no_store_def)
  have w: "\<forall>ev \<in> set rapid_requests. fst ev = ''203.0.113.7'' \<longrightarrow> snd ev - 0 < windowMs"
    by (simp add: rapid_requests_def windowMs_def)
  have r: "requests_so_far ''203.0.113.7'' rapid_requests (Suc 9) = 9"
    "requests_so_far ''203.0.113.7'' rapid_requests (Suc 10) = 10"
    "fst (rapid_requests ! 9) = ''203.0.113.7''" "fst (rapid_requests ! 10) = ''203.0.113.7''"
    "snd (rapid_requests ! 10) = 100" "length rapid_requests = 11"
    by (simp_all add: requests_so_far_def rapid_requests_def)
  from fixed_window_admission [of no_store "''203.0.113.7''" 0 rapid_requests] f w
  have t: "fst (serve no_store ((''203.0.113.7'', 0) # rapid_requests)) ! 0 = Admitted"
    "\<forall>i < length rapid_requests. fst (rapid_requests ! i) = ''203.0.113.7'' \<longrightarrow>
            (Suc (requests_so_far ''203.0.113.7'' rapid_requests (Suc i)) \<le> max_requests \<longrightarrow>
               fst (serve no_store ((''203.0.113.7'', 0) # rapid_requests)) ! Suc i = Admitted) \<and>
            (max_requests < Suc (requests_so_far ''203.0.113.7'' rapid_requests (Suc i)) \<longrightarrow>
               fst (serve no_store ((''203.0.113.7'', 0) # rapid_requests)) ! Suc i
                 = RateLimited (windowMs - (snd (rapid_requests ! i) - 0)))"
    "\<forall>t'. windowMs \<le> t' - 0 \<longrightarrow>
       fst (admit (snd (serve no_store ((''203.0.113.7'', 0) # rapid_requests))) ''203.0.113.7'' t')
         = Admitted"
    by auto
  from t(2) [rule_format, of 9] r
  have a: "fst (serve no_store ((''203.0.113.7'', 0) # rapid_requests)) ! Suc 9 = Admitted"
    by (simp add: max_requests_def)
  from t(2) [rule_format, of 10] r
  have b: "fst (serve no_store ((''203.0.113.7'', 0) # rapid_requests)) ! Suc 10
             = RateLimited (windowMs - 100)"
    by (simp add: max_requests_def)
  from t(3) [rule_format, of 900000]
  have c: "fst (admit (snd (serve no_store ((''203.0.113.7'', 0) # rapid_requests)))
             ''203.0.113.7'' 900000) = Admitted"
    by (simp add: windowMs_def)
  from t(1) a b c show ?thesis by (simp add: windowMs_def)
qed

section \<open>The origin guard\<close>

lemma allowedOrigins_set:
  "set (allowedOrigins e) =
     {''https://godagoo.github.io'', ''http://localhost:3000'', ''http://127.0.0.1:3000''} \<union>
     (case e ''FRONTEND_URL'' of None \<Rightarrow> {} | Some u \<Rightarrow> if u = [] then {} else {u})"
  by (auto simp: allowedOrigins_def env_truthy_def split: option.splits)

text \<open>
  C3, as the specification has it: an origin that is not allowed is refused with a 400 or a
  403. The callback fails with a plain \<^verbatim>\<open>Error\<close>, which only the closing error handler
  catches, and that handler answers 500 whatever the error.
\<close>

theorem origin_denied_counterexample:
  "map_option status (origin_guard no_env (Some ''https://evil.example'')) = Some 500"
  by (simp add: origin_guard_def origin_callback_def allowedOrigins_def no_env_def
      env_truthy_def error_handler_def)

text \<open>
  C3, amended: the guard lets a request through when it declares no origin, an empty one, or
  one equal to an entry of the allow-list (the three fixed origins and a non-empty
  \<^verbatim>\<open>FRONTEND_URL\<close>); every other origin gets the 500 \<^verbatim>\<open>Internal server error\<close> of the error
  handler, with the message \<^verbatim>\<open>An unexpected error occurred\<close>, or \<^verbatim>\<open>Not allowed by CORS\<close>
  when \<^verbatim>\<open>NODE_ENV\<close> is \<^verbatim>\<open>development\<close>. Two refusals under the same mode are equal,
  whatever the origins and the allow-lists: the reply tells nothing about the list.
\<close>

theorem origin_guard_policy:
  "origin_guard e origin =
     (if origin = None \<or> origin = Some [] \<or>
         (\<exists>orig. origin = Some orig \<and> orig \<in> set (allowedOrigins e))
      then None
      else Some \<lparr>status = 500,
                 body = ErrorBody ''Internal server error''
                          (if e ''NODE_ENV'' = Some ''development''
                           then Text ''Not allowed by CORS''
                           else Text ''An unexpected error occurred'')\<rparr>)
   \<and> set (allowedOrigins e) =
       {''https://godagoo.github.io'', ''http://localhost:3000'', ''http://127.0.0.1:3000''} \<union>
       (case e ''FRONTEND_URL'' of None \<Rightarrow> {} | Some u \<Rightarrow> if u = [] then {} else {u})
   \<and> (\<forall>e' origin' r r'. origin_guard e origin = Some r \<and> origin_guard e' origin' = Some r' \<and>
          (e ''NODE_ENV'' = Some ''development'') = (e' ''NODE_ENV'' = Some ''development'')
          \<longrightarrow> r = r')"
  by (auto simp: origin_guard_def origin_callback_def error_handler_def allowedOrigins_set
      split: option.splits)

theorem origin_guard_policy_witness:
  "origin_guard no_env (Some ''http://localhost:3000'') = None \<and>
   origin_guard no_env None = None \<and>
   origin_guard no_env (Some ''http://localhost:3000/'') =
     Some \<lparr>status = 500,
           body = ErrorBody ''Internal server error'' (Text ''An unexpected error occurred'')\<rparr>"
  using origin_guard_policy [of no_env "Some ''http://localhost:3000''"]
    origin_guard_policy [of no_env None]
    origin_guard_policy [of no_env "Some ''http://localhost:3000/''"]
  by (simp add: no_env_def)

section \<open>Upstream failures\<close>

lemma upstream_error_eq:
  assumes "parsed \<noteq> Some JNull"
  shows "upstream_error n2s st parsed =
     (case to_string n2s
             (case upstream_message parsed of
                None \<Rightarrow> JStr (''API error: '' @ show_nat st)
              | Some j \<Rightarrow> if truthy (Some j) then j else JStr (''API error: '' @ show_nat st)) of
        Inl e \<Rightarrow> e
      | Inr s \<Rightarrow> Error s)"
proof (cases parsed)
  case None
  then show ?thesis by (simp add: upstream_error_def upstream_message_def own_property_def)
next
  case (Some j)
  with assms have "j \<noteq> JNull" by simp
  with Some show ?thesis
    by (cases j) (simp_all add: upstream_error_def upstream_message_def Let_def split: option.splits)
qed

lemma upstream_error_message:
  assumes "parsed \<noteq> Some JNull" and "upstream_message parsed = Some (JStr m)" and "m \<noteq> []"
  shows "catch_message (upstream_error n2s st parsed) = Text m"
  using assms by (simp add: upstream_error_eq catch_message_def)

lemma upstream_error_generic:
  assumes "parsed \<noteq> Some JNull" and "\<not> truthy (upstream_message parsed)"
  shows "catch_message (upstream_error n2s st parsed) = Text (''API error: '' @ show_nat st)"
  using assms by (auto simp: upstream_error_eq catch_message_def split: option.splits)

text \<open>
  C4, as the specification has it: an upstream reply that is not 2xx comes back as a 502,
  never as a 500. The handler throws, and its \<^verbatim>\<open>catch\<close> answers 500 for whatever was
  thrown: a 503 from Anthropic with the message \<^verbatim>\<open>Overloaded\<close> is a 500 to the client.
\<close>

theorem upstream_failure_counterexample:
  "status (reply (analyze failing_runtime sample_request)) = 500"
  by (simp add: run_defs failing_runtime_def sample_request_def sample_error_body_def
      upstream_error_def analysis_failed_def)

text \<open>
  C4, amended: for a valid request to a registered provider with its key configured, an
  upstream reply with a status outside 200 to 299 gives HTTP 500 \<^verbatim>\<open>Analysis failed\<close>, after
  exactly one upstream call. When the upstream body is JSON other than \<^verbatim>\<open>null\<close>, the message
  is the upstream's \<^verbatim>\<open>error.message\<close> if that is a non-empty string, and
  \<^verbatim>\<open>API error: <status>\<close> if it is missing or falsy; a body that is not JSON counts as
  \<^verbatim>\<open>{}\<close> and gives \<^verbatim>\<open>API error: <status>\<close> too.
\<close>

theorem upstream_failure_reply:
  assumes "valid_request reqBody" and "request_provider reqBody = JStr p"
    and "map_of PROVIDERS p = Some c" and "env rt (envKey c) = Some k" and "k \<noteq> []"
    and "fetch rt (upstream_request rt reqBody p c k) = Responded st parsed"
    and "\<not> response_ok st"
  shows "status (reply (analyze rt reqBody)) = 500 \<and>
         (\<exists>m. body (reply (analyze rt reqBody)) = FailureBody ''Analysis failed'' m (end_time rt)) \<and>
         calls (analyze rt reqBody) = [upstream_request rt reqBody p c k] \<and>
         (parsed \<noteq> Some JNull \<longrightarrow>
            (\<forall>m. upstream_message parsed = Some (JStr m) \<and> m \<noteq> [] \<longrightarrow>
               body (reply (analyze rt reqBody))
                 = FailureBody ''Analysis failed'' (Text m) (end_time rt)) \<and>
            (\<not> truthy (upstream_message parsed) \<longrightarrow>
               body (reply (analyze rt reqBody))
                 = FailureBody ''Analysis failed'' (Text (''API error: '' @ show_nat st))
                     (end_time rt)))"
proof -
  have "read_response (number_to_string rt) (branch_of p)
          (fetch rt (upstream_request rt reqBody p c k))
        = Inl (upstream_error (number_to_string rt) st parsed)"
    using assms(6,7) by (simp add: read_response_def)
  from analyze_upstream_failure [OF assms(1-5) this] show ?thesis
    by (simp add: analysis_failed_def upstream_error_message upstream_error_generic)
qed

theorem upstream_failure_reply_witness:
  "status (reply (analyze failing_runtime sample_request)) = 500 \<and>
   body (reply (analyze failing_runtime sample_request))
     = FailureBody ''Analysis failed'' (Text ''Overloaded'') 4000"
proof -
  have c: "map_of PROVIDERS ''claude'' = Some (snd (hd PROVIDERS))"
    by (simp add: PROVIDERS_def)
  have "valid_request sample_request" "request_provider sample_request = JStr ''claude''"
    by (simp_all add: valid_request_def request_provider_def sample_request_def own_property_def)
  moreover have "env failing_runtime (envKey (snd (hd PROVIDERS))) = Some ''sk-ant-test''"
    by (simp add: failing_runtime_def sample_runtime_def sample_env_def PROVIDERS_def)
  moreover have "fetch failing_runtime
      (upstream_request failing_runtime sample_request ''claude'' (snd (hd PROVIDERS)) ''sk-ant-test'')
      = Responded 503 (Some sample_error_body)"
    by (simp add: failing_runtime_def)
  moreover have "\<not> response_ok 503" by (simp add: response_ok_def)
  moreover have "upstream_message (Some sample_error_body) = Some (JStr ''Overloaded'')"
    by (simp add: upstream_message_def sample_error_body_def own_property_def)
  moreover have "end_time failing_runtime = 4000"
    by (simp add: failing_runtime_def sample_runtime_def)
  ultimately show ?thesis
    using upstream_failure_reply [of sample_request "''claude''" "snd (hd PROVIDERS)" failing_runtime
        "''sk-ant-test''" 503 "Some sample_error_body"] c
    by (simp add: sample_error_body_def)
qed

section \<open>Provider lookup\<close>

lemma invalid_provider_eq:
  "invalid_provider =
     \<lparr>status = 400,
      body = ErrorBody ''Invalid provider''
        (Text ''Provider must be one of: claude, openrouter_claude, openrouter_gpt4, openrouter_haiku'')\<rparr>"
  by (simp add: invalid_provider_def PROVIDERS_def)

lemma request_provider_default:
  "own_property kvs ''provider'' = None \<Longrightarrow> request_provider (JObj kvs) = JStr ''claude''"
  by (simp add: request_provider_def)

lemma own_property_append:
  "own_property (kvs @ [(k, v)]) k' = (if k' = k then Some v else own_property kvs k')"
  by (simp add: own_property_def)

text \<open>
  C5, as the specification has it: every request whose provider is not in the registry gets
  a 400 whose message lists the valid identifiers. The check of \<^verbatim>\<open>responses\<close> comes first:
  a body with an unknown provider and no \<^verbatim>\<open>responses\<close> gets the 400 of that check, whose
  message names no provider.
\<close>

theorem unknown_provider_counterexample:
  "body (reply (analyze sample_runtime (JObj [(''provider'', JStr ''nonexistent'')])))
     = ErrorBody ''Invalid request'' (Text ''Missing or invalid responses object'')"
  by (simp add: run_defs invalid_request_def)

text \<open>
  C5, amended: for a request whose \<^verbatim>\<open>responses\<close> passes the check and whose provider, as a
  member name, is neither in the registry nor a member of \<^verbatim>\<open>Object.prototype\<close>, the reply
  is the 400 \<^verbatim>\<open>Invalid provider\<close> listing the four identifiers, and no upstream call is
  made; a body with no \<^verbatim>\<open>provider\<close> member is handled as the same body with the provider
  \<^verbatim>\<open>claude\<close>.
\<close>

theorem unknown_provider:
  "(valid_request reqBody \<and> to_string (number_to_string rt) (request_provider reqBody) = Inr key \<and>
      key \<notin> set (map fst PROVIDERS) \<and> key \<notin> set object_prototype_keys
    \<longrightarrow> reply (analyze rt reqBody) =
          \<lparr>status = 400,
           body = ErrorBody ''Invalid provider''
             (Text ''Provider must be one of: claude, openrouter_claude, openrouter_gpt4, openrouter_haiku'')\<rparr>
        \<and> calls (analyze rt reqBody) = []) \<and>
   (own_property kvs ''provider'' = None
    \<longrightarrow> request_provider (JObj kvs) = JStr ''claude'' \<and>
        analyze rt (JObj kvs) = analyze rt (JObj (kvs @ [(''provider'', JStr ''claude'')])))"
proof (intro conjI impI)
  assume a: "valid_request reqBody \<and>
      to_string (number_to_string rt) (request_provider reqBody) = Inr key \<and>
      key \<notin> set (map fst PROVIDERS) \<and> key \<notin> set object_prototype_keys"
  then have "lookup_provider key = Missing" by (simp add: lookup_Missing)
  with a have "with_provider rt (get_optional (Some reqBody) ''responses'') (request_provider reqBody)
      = (Inr invalid_provider, [], [])"
    by (simp add: with_provider_def)
  with a show "reply (analyze rt reqBody) =
          \<lparr>status = 400,
           body = ErrorBody ''Invalid provider''
             (Text ''Provider must be one of: claude, openrouter_claude, openrouter_gpt4, openrouter_haiku'')\<rparr>"
    and "calls (analyze rt reqBody) = []"
    by (simp_all add: analyze_valid invalid_provider_eq)
next
  assume n: "own_property kvs ''provider'' = None"
  then show "request_provider (JObj kvs) = JStr ''claude''"
    by (rule request_provider_default)
  from n show "analyze rt (JObj kvs) = analyze rt (JObj (kvs @ [(''provider'', JStr ''claude'')]))"
    by (simp add: analyze_def try_block_eq request_provider_def own_property_append)
qed

theorem unknown_provider_witness:
  "reply (analyze sample_runtime
           (JObj [(''responses'', JObj [(''industry'', JArr [JStr ''saas''])]),
                  (''provider'', JStr ''nonexistent'')])) =
     \<lparr>status = 400,
      body = ErrorBody ''Invalid provider''
        (Text ''Provider must be one of: claude, openrouter_claude, openrouter_gpt4, openrouter_haiku'')\<rparr>
   \<and> analyze sample_runtime (JObj [(''responses'', JObj [])])
     = analyze sample_runtime (JObj [(''responses'', JObj []), (''provider'', JStr ''claude'')])"
  using unknown_provider [of "JObj [(''responses'', JObj [(''industry'', JArr [JStr ''saas''])]),
                  (''provider'', JStr ''nonexistent'')]" sample_runtime "''nonexistent''"
                  "[(''responses'', JObj [])]"]
  by (simp add: valid_request_def request_provider_def own_property_def PROVIDERS_def
      object_prototype_keys_def)

text \<open>
  A name that \<^verbatim>\<open>Object.prototype\<close> has is found by the lookup of line 113, though it is no
  provider: the request goes on to the key check, which reads the variable named
  \<^verbatim>\<open>undefined\<close>.
\<close>

lemma prototype_provider_reply:
  "reply (analyze sample_runtime
            (JObj [(''responses'', JObj []), (''provider'', JStr ''constructor'')]))
     = configuration_error"
  by (simp add: run_defs object_prototype_keys_def)

section \<open>Missing credentials\<close>

text \<open>
  C6: for a valid request whose provider resolves to a registry entry, when the variable
  that entry names is unset or empty, the reply is the 500 \<^verbatim>\<open>Configuration error\<close> with the
  fixed message \<^verbatim>\<open>Server is not properly configured. Please contact administrator.\<close>, the
  same in both cases; the only log line names the provider, and no upstream call is made.
\<close>

theorem missing_credential:
  assumes "valid_request reqBody"
    and "to_string (number_to_string rt) (request_provider reqBody) = Inr key"
    and "lookup_provider key = Config c"
    and "env rt (envKey c) = None \<or> env rt (envKey c) = Some []"
  shows "reply (analyze rt reqBody) =
           \<lparr>status = 500,
            body = ErrorBody ''Configuration error''
              (Text ''Server is not properly configured. Please contact administrator.'')\<rparr> \<and>
         calls (analyze rt reqBody) = [] \<and>
         logged (analyze rt reqBody) = [MissingApiKey key]"
proof -
  from assms(2-4) have
    "with_provider rt (get_optional (Some reqBody) ''responses'') (request_provider reqBody)
       = (Inr configuration_error, [], [MissingApiKey key])"
    by (auto simp: with_provider_def config_envKey_def)
  with assms(1) show ?thesis
    by (simp add: analyze_valid configuration_error_def)
qed

theorem missing_credential_witness:
  "reply (analyze unconfigured_runtime sample_request) =
     \<lparr>status = 500,
      body = ErrorBody ''Configuration error''
        (Text ''Server is not properly configured. Please contact administrator.'')\<rparr> \<and>
   calls (analyze unconfigured_runtime sample_request) = [] \<and>
   logged (analyze unconfigured_runtime sample_request) = [MissingApiKey ''claude'']"
proof -
  have "valid_request sample_request"
    and "to_string (number_to_string unconfigured_runtime) (request_provider sample_request)
           = Inr ''claude''"
    by (simp_all add: valid_request_def request_provider_def sample_request_def own_property_def)
  moreover have "lookup_provider ''claude'' = Config (snd (hd PROVIDERS))"
    by (simp add: lookup_provider_def PROVIDERS_def)
  moreover have "env unconfigured_runtime (envKey (snd (hd PROVIDERS))) = None"
    by (simp add: unconfigured_runtime_def PROVIDERS_def)
  ultimately show ?thesis
    using missing_credential [of sample_request unconfigured_runtime "''claude''"
        "snd (hd PROVIDERS)"]
    by simp
qed

section \<open>The cost estimate\<close>

text \<open>
  C7: in every successful reply the three costs are what lines 417 to 419 compute in
  binary64 from the counts of the reply and the prices of the provider looked up:
  \<open>cost.input = input / 1000000 * price\<close>, likewise for the output, and
  \<open>cost.total = cost.input + cost.output\<close>. For whole counts below \<open>2 ^ 53\<close> and every
  provider of the registry, the computed total is a finite number within a relative error of
  \<open>2 ^ -51\<close> of the exact \<open>input / 10^6 \<times> inputPrice + output / 10^6 \<times> outputPrice\<close>.
  With 1000 and 2000 tokens at 3 and 15 per million it is the double nearest to \<open>0.033\<close>.
  With zero counts every cost is \<open>+0\<close>.
\<close>

theorem cost_estimate:
  "(body (reply (analyze rt reqBody)) = SuccessBody s \<and> request_provider reqBody = JStr p \<and>
    map_of PROVIDERS p = Some c
    \<longrightarrow> (\<exists>i out.
          to_number (number_to_string rt) (string_to_number rt) (tokens_input s) = Inr i \<and>
          to_number (number_to_string rt) (string_to_number rt) (tokens_output s) = Inr out \<and>
          cost_input s = js_mul (js_div i (Fin 1000000)) (costPer1M_input c) \<and>
          cost_output s = js_mul (js_div out (Fin 1000000)) (costPer1M_output c) \<and>
          cost_total s = js_plus (cost_input s) (cost_output s) \<and>
          cost_total s = total_cost c i out)) \<and>
   (\<forall>(p, c) \<in> set PROVIDERS. \<forall>a b. a < 2 ^ 53 \<and> b < 2 ^ 53 \<longrightarrow>
      total_cost c (Fin (of_nat a)) (Fin (of_nat b))
        = Fin (magnitude (total_cost c (Fin (of_nat a)) (Fin (of_nat b)))) \<and>
      \<bar>magnitude (total_cost c (Fin (of_nat a)) (Fin (of_nat b))) - exact_cost c a b\<bar>
        \<le> exact_cost c a b / 2 ^ 51) \<and>
   (\<forall>(p, c) \<in> set PROVIDERS.
      costPer1M_input c = Fin 3 \<and> costPer1M_output c = Fin 15 \<longrightarrow>
      total_cost c (Fin 1000) (Fin 2000) = round_double (33 / 1000)) \<and>
   (\<forall>(p, c) \<in> set PROVIDERS.
      cost_of (Fin 0) (costPer1M_input c) = Fin 0 \<and>
      cost_of (Fin 0) (costPer1M_output c) = Fin 0 \<and>
      total_cost c (Fin 0) (Fin 0) = Fin 0)"
proof (intro conjI impI)
  assume h: "body (reply (analyze rt reqBody)) = SuccessBody s \<and>
    request_provider reqBody = JStr p \<and> map_of PROVIDERS p = Some c"
  from analyze_success [of rt reqBody s] h obtain p' c' n i out tot where
    a: "request_provider reqBody = JStr p'" "map_of PROVIDERS p' = Some c'"
      "to_number (number_to_string rt) (string_to_number rt) (inputTokens n) = Inr i"
      "to_number (number_to_string rt) (string_to_number rt) (outputTokens n) = Inr out"
      "s = success_reply rt c' n i out tot"
    by blast
  from a(1,2) h have "c' = c" by simp
  with a show "\<exists>i out.
          to_number (number_to_string rt) (string_to_number rt) (tokens_input s) = Inr i \<and>
          to_number (number_to_string rt) (string_to_number rt) (tokens_output s) = Inr out \<and>
          cost_input s = js_mul (js_div i (Fin 1000000)) (costPer1M_input c) \<and>
          cost_output s = js_mul (js_div out (Fin 1000000)) (costPer1M_output c) \<and>
          cost_total s = js_plus (cost_input s) (cost_output s) \<and>
          cost_total s = total_cost c i out"
    by (simp add: success_reply_def cost_of_def total_cost_def)
next
  show "\<forall>(p, c) \<in> set PROVIDERS. \<forall>a b. a < 2 ^ 53 \<and> b < 2 ^ 53 \<longrightarrow>
      total_cost c (Fin (of_nat a)) (Fin (of_nat b))
        = Fin (magnitude (total_cost c (Fin (of_nat a)) (Fin (of_nat b)))) \<and>
      \<bar>magnitude (total_cost c (Fin (of_nat a)) (Fin (of_nat b))) - exact_cost c a b\<bar>
        \<le> exact_cost c a b / 2 ^ 51"
    using registry_total_cost by blast
next
  show "\<forall>(p, c) \<in> set PROVIDERS.
      costPer1M_input c = Fin 3 \<and> costPer1M_output c = Fin 15 \<longrightarrow>
      total_cost c (Fin 1000) (Fin 2000) = round_double (33 / 1000)"
    by (auto simp only: total_cost_def example_total example_literal)
next
  show "\<forall>(p, c) \<in> set PROVIDERS.
      cost_of (Fin 0) (costPer1M_input c) = Fin 0 \<and>
      cost_of (Fin 0) (costPer1M_output c) = Fin 0 \<and>
      total_cost c (Fin 0) (Fin 0) = Fin 0"
    using registry_zero_cost by blast
qed

theorem cost_estimate_witness:
  "map_option cost_total (reply_success (analyze priced_runtime sample_request))
     = Some (Fin (1188950301625811 / 36028797018963968)) \<and>
   \<bar>1188950301625811 / 36028797018963968 - exact_cost (snd (hd PROVIDERS)) 1000 2000\<bar>
     \<le> exact_cost (snd (hd PROVIDERS)) 1000 2000 / 2 ^ 51 \<and>
   exact_cost (snd (hd PROVIDERS)) 1000 2000 = 33 / 1000 \<and>
   total_cost (snd (hd PROVIDERS)) (Fin 0) (Fin 0) = Fin 0"
proof -
  have p: "request_provider sample_request = JStr ''claude''"
    by (simp add: request_provider_def sample_request_def own_property_def)
  have c: "map_of PROVIDERS ''claude'' = Some (snd (hd PROVIDERS))"
    "costPer1M_input (snd (hd PROVIDERS)) = Fin 3" "costPer1M_output (snd (hd PROVIDERS)) = Fin 15"
    "(''claude'', snd (hd PROVIDERS)) \<in> set PROVIDERS"
    by (simp_all add: PROVIDERS_def)
  have t: "tokens_input priced_success = JNum (Fin 1000)"
    "tokens_output priced_success = JNum (Fin 2000)"
    by (simp_all add: priced_success_def success_reply_def priced_normalized_def)
  have e: "exact_cost (snd (hd PROVIDERS)) 1000 2000 = 33 / 1000"
    by (simp add: exact_cost_def c)
  note ce = cost_estimate [of priced_runtime sample_request priced_success "''claude''"
      "snd (hd PROVIDERS)"]
  from ce priced_run p c t
  have 1: "cost_total priced_success = total_cost (snd (hd PROVIDERS)) (Fin 1000) (Fin 2000)"
    by auto
  from ce c have 2: "total_cost (snd (hd PROVIDERS)) (Fin 1000) (Fin 2000) = round_double (33 / 1000)"
    and 3: "total_cost (snd (hd PROVIDERS)) (Fin 0) (Fin 0) = Fin 0"
    by blast+
  from ce c(4) have "(1000::nat) < 2 ^ 53 \<and> (2000::nat) < 2 ^ 53 \<longrightarrow>
      \<bar>magnitude (total_cost (snd (hd PROVIDERS)) (Fin (of_nat 1000)) (Fin (of_nat 2000)))
         - exact_cost (snd (hd PROVIDERS)) 1000 2000\<bar>
        \<le> exact_cost (snd (hd PROVIDERS)) 1000 2000 / 2 ^ 51"
    by blast
  then have 4: "\<bar>magnitude (total_cost (snd (hd PROVIDERS)) (Fin 1000) (Fin 2000))
         - exact_cost (snd (hd PROVIDERS)) 1000 2000\<bar>
        \<le> exact_cost (snd (hd PROVIDERS)) 1000 2000 / 2 ^ 51"
    by simp
  from 1 2 3 4 e priced_run show ?thesis
    by (simp add: reply_success_def example_literal)
qed

section \<open>Token counts\<close>

text \<open>
  C8: let the upstream answer a valid request with a 2xx status and a JSON body in which the
  text of the branch is present (\<^verbatim>\<open>data.content[0].text\<close> for \<^verbatim>\<open>claude\<close>,
  \<^verbatim>\<open>data.choices[0].message.content\<close> otherwise) and the two usage counters of the branch
  are missing (\<^verbatim>\<open>usage\<close> itself may be missing too). Then the handler does not fail: it
  answers 200 with exactly that text as \<^verbatim>\<open>analysis\<close>, with both counts, their total and
  all three costs equal to zero, after exactly one upstream call. In every successful reply,
  \<^verbatim>\<open>tokens.total\<close> is \<^verbatim>\<open>input + output\<close> as JavaScript adds them; for whole counts with
  a sum below \<open>2 ^ 53\<close> that is their exact sum.
\<close>

theorem missing_usage_defaults:
  "(valid_request reqBody \<and> request_provider reqBody = JStr p \<and> map_of PROVIDERS p = Some c \<and>
    env rt (envKey c) = Some k \<and> k \<noteq> [] \<and>
    fetch rt (upstream_request rt reqBody p c k) = Responded st (Some data) \<and> response_ok st \<and>
    (p = ''claude'' \<longrightarrow>
       get_prop (Some data) ''content'' = Inr content \<and> get_first content = Inr first \<and>
       get_prop first ''text'' = Inr (Some txt) \<and>
       get_optional (get_optional (Some data) ''usage'') ''input_tokens'' = None \<and>
       get_optional (get_optional (Some data) ''usage'') ''output_tokens'' = None) \<and>
    (p \<noteq> ''claude'' \<longrightarrow>
       get_prop (Some data) ''choices'' = Inr content \<and> get_first content = Inr first \<and>
       get_prop first ''message'' = Inr msg \<and> get_prop msg ''content'' = Inr (Some txt) \<and>
       get_optional (get_optional (Some data) ''usage'') ''prompt_tokens'' = None \<and>
       get_optional (get_optional (Some data) ''usage'') ''completion_tokens'' = None)
    \<longrightarrow> reply (analyze rt reqBody) =
          \<lparr>status = 200,
           body = SuccessBody
             \<lparr>analysis = Some txt, meta_provider = name c, meta_model = model c,
              tokens_input = JNum (Fin 0), tokens_output = JNum (Fin 0),
              tokens_total = JNum (Fin 0),
              cost_input = Fin 0, cost_output = Fin 0, cost_total = Fin 0,
              duration = end_time rt - start_time rt, timestamp = end_time rt\<rparr>\<rparr> \<and>
        calls (analyze rt reqBody) = [upstream_request rt reqBody p c k]) \<and>
   (body (reply (analyze rt' reqBody')) = SuccessBody s'
    \<longrightarrow> js_add (number_to_string rt') (string_to_number rt') (tokens_input s') (tokens_output s')
          = Inr (tokens_total s') \<and>
        (\<forall>a b. tokens_input s' = JNum (Fin (of_nat a)) \<and> tokens_output s' = JNum (Fin (of_nat b)) \<and>
               a + b < 2 ^ 53
               \<longrightarrow> tokens_total s' = JNum (Fin (of_nat (a + b)))))"
proof (intro conjI impI)
  assume h: "valid_request reqBody \<and> request_provider reqBody = JStr p \<and> map_of PROVIDERS p = Some c \<and>
    env rt (envKey c) = Some k \<and> k \<noteq> [] \<and>
    fetch rt (upstream_request rt reqBody p c k) = Responded st (Some data) \<and> response_ok st \<and>
    (p = ''claude'' \<longrightarrow>
       get_prop (Some data) ''content'' = Inr content \<and> get_first content = Inr first \<and>
       get_prop first ''text'' = Inr (Some txt) \<and>
       get_optional (get_optional (Some data) ''usage'') ''input_tokens'' = None \<and>
       get_optional (get_optional (Some data) ''usage'') ''output_tokens'' = None) \<and>
    (p \<noteq> ''claude'' \<longrightarrow>
       get_prop (Some data) ''choices'' = Inr content \<and> get_first content = Inr first \<and>
       get_prop first ''message'' = Inr msg \<and> get_prop msg ''content'' = Inr (Some txt) \<and>
       get_optional (get_optional (Some data) ''usage'') ''prompt_tokens'' = None \<and>
       get_optional (get_optional (Some data) ''usage'') ''completion_tokens'' = None)"
  let ?n = "\<lparr>analysisText = Some txt, inputTokens = JNum (Fin 0), outputTokens = JNum (Fin 0)\<rparr>"
  have n: "normalize (branch_of p) data = Inr ?n"
  proof (cases "p = ''claude''")
    case True
    with h normalize_message_reads [of data content first "Some txt"] show ?thesis
      by (simp add: branch_of_def)
  next
    case False
    with h normalize_chat_reads [of data content first msg "Some txt"] show ?thesis
      by (simp add: branch_of_def)
  qed
  from h n have rr: "read_response (number_to_string rt) (branch_of p)
           (fetch rt (upstream_request rt reqBody p c k)) = Inr ?n"
    by (simp add: read_response_def)
  from h have "(p, c) \<in> set PROVIDERS" by (auto dest: map_of_SomeD)
  note z = registry_zero_cost [OF this]
  from analyze_upstream_success [of reqBody p c rt k ?n "Fin 0" "Fin 0" "JNum (Fin 0)"] h rr
  have "reply (analyze rt reqBody) =
           \<lparr>status = 200, body = SuccessBody (success_reply rt c ?n (Fin 0) (Fin 0) (JNum (Fin 0)))\<rparr>"
    and cs: "calls (analyze rt reqBody) = [upstream_request rt reqBody p c k]"
    by (simp_all add: js_add_zero)
  then show "reply (analyze rt reqBody) =
          \<lparr>status = 200,
           body = SuccessBody
             \<lparr>analysis = Some txt, meta_provider = name c, meta_model = model c,
              tokens_input = JNum (Fin 0), tokens_output = JNum (Fin 0),
              tokens_total = JNum (Fin 0),
              cost_input = Fin 0, cost_output = Fin 0, cost_total = Fin 0,
              duration = end_time rt - start_time rt, timestamp = end_time rt\<rparr>\<rparr>"
    using z by (simp add: success_reply_def total_cost_def)
  from cs show "calls (analyze rt reqBody) = [upstream_request rt reqBody p c k]" .
next
  assume "body (reply (analyze rt' reqBody')) = SuccessBody s'"
  from analyze_success [OF this] obtain c n i out tot where
    t: "js_add (number_to_string rt') (string_to_number rt') (inputTokens n) (outputTokens n) = Inr tot"
    and s: "s' = success_reply rt' c n i out tot"
    by blast
  then show t': "js_add (number_to_string rt') (string_to_number rt') (tokens_input s') (tokens_output s')
          = Inr (tokens_total s')"
    by (simp add: success_reply_def)
  show "\<forall>a b. tokens_input s' = JNum (Fin (of_nat a)) \<and> tokens_output s' = JNum (Fin (of_nat b)) \<and>
               a + b < 2 ^ 53
               \<longrightarrow> tokens_total s' = JNum (Fin (of_nat (a + b)))"
    using t' by (auto simp: js_add_nat)
qed


theorem missing_usage_defaults_witness:
  "reply (analyze no_usage_runtime sample_request) =
     \<lparr>status = 200,
      body = SuccessBody
        \<lparr>analysis = Some (JStr ''Report body''), meta_provider = ''Claude (Direct)'',
         meta_model = ''claude-sonnet-4-20250514'',
         tokens_input = JNum (Fin 0), tokens_output = JNum (Fin 0), tokens_total = JNum (Fin 0),
         cost_input = Fin 0, cost_output = Fin 0, cost_total = Fin 0,
         duration = 3000, timestamp = 4000\<rparr>\<rparr> \<and>
   map_option analysis (reply_success (analyze no_usage_runtime sample_chat_request))
     = Some (Some (JStr ''Chat report'')) \<and>
   map_option tokens_total (reply_success (analyze no_usage_runtime sample_chat_request))
     = Some (JNum (Fin 0)) \<and>
   map_option tokens_total (reply_success (analyze sample_runtime sample_request))
     = Some (JNum (Fin 1300))"
proof -
  let ?c = "snd (hd PROVIDERS)"
  let ?g = "snd (PROVIDERS ! 2)"
  let ?first = "JObj [(''type'', JStr ''text''), (''text'', JStr ''Report body'')]"
  let ?msg = "JObj [(''role'', JStr ''assistant''), (''content'', JStr ''Chat report'')]"
  let ?choice = "JObj [(''message'', ?msg)]"
  have v: "valid_request sample_request" "request_provider sample_request = JStr ''claude''"
    "valid_request sample_chat_request"
    "request_provider sample_chat_request = JStr ''openrouter_gpt4''"
    by (simp_all add: valid_request_def request_provider_def sample_request_def
        sample_chat_request_def own_property_def)
  have c: "map_of PROVIDERS ''claude'' = Some ?c" "map_of PROVIDERS ''openrouter_gpt4'' = Some ?g"
    "name ?c = ''Claude (Direct)''" "model ?c = ''claude-sonnet-4-20250514''"
    by (simp_all add: PROVIDERS_def)
  have k: "env no_usage_runtime (envKey ?c) = Some ''sk-ant-test''"
    "env no_usage_runtime (envKey ?g) = Some ''sk-or-test''"
    "start_time no_usage_runtime = 1000" "end_time no_usage_runtime = 4000"
    by (simp_all add: no_usage_runtime_def sample_runtime_def sample_env_def PROVIDERS_def)
  have f: "fetch no_usage_runtime
      (upstream_request no_usage_runtime sample_request ''claude'' ?c ''sk-ant-test'')
      = Responded 200 (Some no_usage_body)"
    "fetch no_usage_runtime
      (upstream_request no_usage_runtime sample_chat_request ''openrouter_gpt4'' ?g ''sk-or-test'')
      = Responded 200 (Some no_usage_chat_body)"
    by (simp_all add: no_usage_runtime_def no_usage_fetch_def upstream_request_def branch_of_def
        claude_request_def openrouter_request_def PROVIDERS_def)
  have r: "get_prop (Some no_usage_body) ''content'' = Inr (Some (JArr [?first]))"
    "get_first (Some (JArr [?first])) = Inr (Some ?first)"
    "get_prop (Some ?first) ''text'' = Inr (Some (JStr ''Report body''))"
    "get_optional (get_optional (Some no_usage_body) ''usage'') ''input_tokens'' = None"
    "get_optional (get_optional (Some no_usage_body) ''usage'') ''output_tokens'' = None"
    by (simp_all add: no_usage_body_def own_property_def)
  have r': "get_prop (Some no_usage_chat_body) ''choices'' = Inr (Some (JArr [?choice]))"
    "get_first (Some (JArr [?choice])) = Inr (Some ?choice)"
    "get_prop (Some ?choice) ''message'' = Inr (Some ?msg)"
    "get_prop (Some ?msg) ''content'' = Inr (Some (JStr ''Chat report''))"
    "get_optional (get_optional (Some no_usage_chat_body) ''usage'') ''prompt_tokens'' = None"
    "get_optional (get_optional (Some no_usage_chat_body) ''usage'') ''completion_tokens'' = None"
    by (simp_all add: no_usage_chat_body_def own_property_def)
  have t: "tokens_input sample_success = JNum (Fin (of_nat 500))"
    "tokens_output sample_success = JNum (Fin (of_nat 800))"
    by (simp_all add: sample_success_def success_reply_def sample_normalized_def)
  have ok: "response_ok 200" by (simp add: response_ok_def)
  from missing_usage_defaults [of sample_request "''claude''" ?c no_usage_runtime
      "''sk-ant-test''" 200 no_usage_body "Some (JArr [?first])" "Some ?first"
      "JStr ''Report body''" msg sample_runtime sample_request sample_success]
    v c k f r t ok sample_run
  have 1: "reply (analyze no_usage_runtime sample_request) =
     \<lparr>status = 200,
      body = SuccessBody
        \<lparr>analysis = Some (JStr ''Report body''), meta_provider = ''Claude (Direct)'',
         meta_model = ''claude-sonnet-4-20250514'',
         tokens_input = JNum (Fin 0), tokens_output = JNum (Fin 0), tokens_total = JNum (Fin 0),
         cost_input = Fin 0, cost_output = Fin 0, cost_total = Fin 0,
         duration = 3000, timestamp = 4000\<rparr>\<rparr>"
    and 3: "tokens_total sample_success = JNum (Fin 1300)"
    by auto
  from missing_usage_defaults [of sample_chat_request "''openrouter_gpt4''" ?g no_usage_runtime
      "''sk-or-test''" 200 no_usage_chat_body "Some (JArr [?choice])" "Some ?choice"
      "JStr ''Chat report''" "Some ?msg"]
    v c k f r' ok
  have 2: "map_option analysis (reply_success (analyze no_usage_runtime sample_chat_request))
     = Some (Some (JStr ''Chat report''))"
    "map_option tokens_total (reply_success (analyze no_usage_runtime sample_chat_request))
     = Some (JNum (Fin 0))"
    by (simp_all add: reply_success_def)
  from 1 2 3 sample_run show ?thesis by (simp add: reply_success_def)
qed

section \<open>Normalization\<close>

text \<open>
  C9: what a successful reply carries as text and token counts is the value of \<open>normalize\<close>
  at the upstream payload and the branch, a function of these two and of nothing else. So two
  successful requests that got the same payload on the same branch carry the same text and
  the same counts, whatever their bodies, environments, keys, prompts and clocks.
\<close>

theorem normalization_deterministic:
  "(body (reply (analyze rt reqBody)) = SuccessBody s \<and>
    request_provider reqBody = JStr p \<and>
    calls (analyze rt reqBody) = [req] \<and> fetch rt req = Responded st (Some data)
    \<longrightarrow> normalize (branch_of p) data =
          Inr \<lparr>analysisText = analysis s, inputTokens = tokens_input s,
               outputTokens = tokens_output s\<rparr>) \<and>
   (body (reply (analyze rt reqBody)) = SuccessBody s \<and>
    request_provider reqBody = JStr p \<and>
    calls (analyze rt reqBody) = [req] \<and> fetch rt req = Responded st (Some data) \<and>
    body (reply (analyze rt' reqBody')) = SuccessBody s' \<and>
    request_provider reqBody' = JStr p' \<and>
    calls (analyze rt' reqBody') = [req'] \<and> fetch rt' req' = Responded st' (Some data) \<and>
    branch_of p = branch_of p'
    \<longrightarrow> analysis s = analysis s' \<and> tokens_input s = tokens_input s' \<and>
        tokens_output s = tokens_output s')"
proof (intro conjI impI)
  assume "body (reply (analyze rt reqBody)) = SuccessBody s \<and>
    request_provider reqBody = JStr p \<and>
    calls (analyze rt reqBody) = [req] \<and> fetch rt req = Responded st (Some data)"
  then show "normalize (branch_of p) data =
          Inr \<lparr>analysisText = analysis s, inputTokens = tokens_input s,
               outputTokens = tokens_output s\<rparr>"
    using success_fields by blast
next
  assume h: "body (reply (analyze rt reqBody)) = SuccessBody s \<and>
    request_provider reqBody = JStr p \<and>
    calls (analyze rt reqBody) = [req] \<and> fetch rt req = Responded st (Some data) \<and>
    body (reply (analyze rt' reqBody')) = SuccessBody s' \<and>
    request_provider reqBody' = JStr p' \<and>
    calls (analyze rt' reqBody') = [req'] \<and> fetch rt' req' = Responded st' (Some data) \<and>
    branch_of p = branch_of p'"
  then have "normalize (branch_of p) data =
          Inr \<lparr>analysisText = analysis s, inputTokens = tokens_input s,
               outputTokens = tokens_output s\<rparr>"
    using success_fields by blast
  moreover from h have "normalize (branch_of p) data =
          Inr \<lparr>analysisText = analysis s', inputTokens = tokens_input s',
               outputTokens = tokens_output s'\<rparr>"
    using success_fields [of rt' reqBody' s' p' req' st' data] by simp
  ultimately show "analysis s = analysis s'" "tokens_input s = tokens_input s'"
    "tokens_output s = tokens_output s'"
    by simp_all
qed

theorem normalization_deterministic_witness:
  "normalize ClaudeBranch sample_message_body = Inr sample_normalized \<and>
   map_option analysis (reply_success (analyze other_runtime other_request))
     = map_option analysis (reply_success (analyze sample_runtime sample_request)) \<and>
   map_option tokens_input (reply_success (analyze other_runtime other_request))
     = map_option tokens_input (reply_success (analyze sample_runtime sample_request)) \<and>
   map_option tokens_output (reply_success (analyze other_runtime other_request))
     = map_option tokens_output (reply_success (analyze sample_runtime sample_request))"
proof -
  let ?req = "claude_request (snd (hd PROVIDERS)) ''sk-ant-test'' ''prompt''"
  let ?req' = "claude_request (snd (hd PROVIDERS)) ''sk-ant-other'' ''another prompt''"
  have p: "request_provider sample_request = JStr ''claude''"
    "request_provider other_request = JStr ''claude''"
    by (simp_all add: request_provider_def sample_request_def other_request_def own_property_def)
  have c: "calls (analyze sample_runtime sample_request) = [?req]"
    "calls (analyze other_runtime other_request) = [?req']"
    by (simp_all add: run_defs sample_request_def other_request_def other_runtime_def)
  have f: "fetch sample_runtime ?req = Responded 200 (Some sample_message_body)"
    "fetch other_runtime ?req' = Responded 200 (Some sample_message_body)"
    by (simp_all add: sample_runtime_def other_runtime_def sample_fetch_def claude_request_def
        PROVIDERS_def)
  have s: "\<lparr>analysisText = analysis sample_success, inputTokens = tokens_input sample_success,
            outputTokens = tokens_output sample_success\<rparr> = sample_normalized"
    by (simp add: sample_success_def success_reply_def)
  from normalization_deterministic [of sample_runtime sample_request sample_success "''claude''"
      ?req 200 sample_message_body other_runtime other_request other_success "''claude''" ?req' 200]
    sample_run other_run p c f s
  show ?thesis
    by (simp add: reply_success_def branch_of_def)
qed

section \<open>Dispatch\<close>

text \<open>
  C10: every identifier of the registry is \<^verbatim>\<open>claude\<close> or begins with \<^verbatim>\<open>openrouter_\<close>,
  never both, so the dispatch takes exactly one branch for it. The first branch sends the key
  in \<^verbatim>\<open>x-api-key\<close> and no \<^verbatim>\<open>Authorization\<close>, the second sends \<^verbatim>\<open>Authorization: Bearer\<close>
  and no \<^verbatim>\<open>x-api-key\<close>. A valid request for a registered provider with its key makes
  exactly one upstream call, built by that branch. For a registered provider the dispatch
  never falls through: its result is what the provider's branch reads from the reply to
  that one call. In each branch, a 2xx body in which the text can be read
  (\<^verbatim>\<open>data.content[0].text\<close>, resp. \<^verbatim>\<open>data.choices[0].message.content\<close>) is normalized
  with \<^verbatim>\<open>analysisText\<close> assigned that value. And whenever the handler answers with a
  success body, the provider is registered, one call was made, its reply was 2xx, and
  \<^verbatim>\<open>analysis\<close> is the value found in that reply at the path of the provider's branch.
\<close>

theorem registry_dispatch:
  "(\<forall>(p, c) \<in> set PROVIDERS.
      (p = ''claude'' \<or> prefix ''openrouter_'' p) \<and> \<not> (p = ''claude'' \<and> prefix ''openrouter_'' p) \<and>
      select_branch (JStr p) = Inr (Some (branch_of p)) \<and>
      (branch_of p = ClaudeBranch) = (p = ''claude'')) \<and>
   (map_of (headers (build_request e ClaudeBranch c k prompt)) ''x-api-key'' = Some k \<and>
    map_of (headers (build_request e ClaudeBranch c k prompt)) ''Authorization'' = None \<and>
    map_of (headers (build_request e OpenRouterBranch c k prompt)) ''Authorization''
      = Some (''Bearer '' @ k) \<and>
    map_of (headers (build_request e OpenRouterBranch c k prompt)) ''x-api-key'' = None) \<and>
   (valid_request reqBody \<and> request_provider reqBody = JStr p \<and> map_of PROVIDERS p = Some c \<and>
    env rt (envKey c) = Some k \<and> k \<noteq> []
    \<longrightarrow> calls (analyze rt reqBody) = [build_request (env rt) (branch_of p) c k
            (build_prompt rt (get_optional (Some reqBody) ''responses''))]) \<and>
   (map_of PROVIDERS p = Some c
    \<longrightarrow> dispatch rt (JStr p) (Config c) k prompt =
          (read_response (number_to_string rt) (branch_of p)
             (fetch rt (build_request (env rt) (branch_of p) c k prompt)),
           [build_request (env rt) (branch_of p) c k prompt])) \<and>
   (response_ok st \<and> get_prop (Some data) ''content'' = Inr content \<and>
    get_first content = Inr first \<and> get_prop first ''text'' = Inr txt
    \<longrightarrow> (\<exists>n. read_response n2s ClaudeBranch (Responded st (Some data)) = Inr n \<and>
             analysisText n = txt)) \<and>
   (response_ok st \<and> get_prop (Some data) ''choices'' = Inr content \<and>
    get_first content = Inr first \<and> get_prop first ''message'' = Inr msg \<and>
    get_prop msg ''content'' = Inr txt
    \<longrightarrow> (\<exists>n. read_response n2s OpenRouterBranch (Responded st (Some data)) = Inr n \<and>
             analysisText n = txt)) \<and>
   (body (reply (analyze rt reqBody)) = SuccessBody s
    \<longrightarrow> (\<exists>p c req st data content first msg.
           request_provider reqBody = JStr p \<and> map_of PROVIDERS p = Some c \<and>
           calls (analyze rt reqBody) = [req] \<and> fetch rt req = Responded st (Some data) \<and> response_ok st \<and>
           (p = ''claude'' \<longrightarrow>
              get_prop (Some data) ''content'' = Inr content \<and> get_first content = Inr first \<and>
              get_prop first ''text'' = Inr (analysis s)) \<and>
           (p \<noteq> ''claude'' \<longrightarrow>
              get_prop (Some data) ''choices'' = Inr content \<and> get_first content = Inr first \<and>
              get_prop first ''message'' = Inr msg \<and>
              get_prop msg ''content'' = Inr (analysis s))))"
proof (intro conjI impI)
  show "\<forall>(p, c) \<in> set PROVIDERS.
      (p = ''claude'' \<or> prefix ''openrouter_'' p) \<and> \<not> (p = ''claude'' \<and> prefix ''openrouter_'' p) \<and>
      select_branch (JStr p) = Inr (Some (branch_of p)) \<and>
      (branch_of p = ClaudeBranch) = (p = ''claude'')"
    by (simp add: PROVIDERS_def select_branch_def branch_of_def)
next
  assume "valid_request reqBody \<and> request_provider reqBody = JStr p \<and> map_of PROVIDERS p = Some c \<and>
    env rt (envKey c) = Some k \<and> k \<noteq> []"
  then show "calls (analyze rt reqBody) = [build_request (env rt) (branch_of p) c k
            (build_prompt rt (get_optional (Some reqBody) ''responses''))]"
    using registered_calls [of reqBody p c rt k] by (simp add: upstream_request_def)
next
  assume "map_of PROVIDERS p = Some c"
  then show "dispatch rt (JStr p) (Config c) k prompt =
          (read_response (number_to_string rt) (branch_of p)
             (fetch rt (build_request (env rt) (branch_of p) c k prompt)),
           [build_request (env rt) (branch_of p) c k prompt])"
    by (rule dispatch_registered)
next
  assume "response_ok st \<and> get_prop (Some data) ''content'' = Inr content \<and>
    get_first content = Inr first \<and> get_prop first ''text'' = Inr txt"
  then show "\<exists>n. read_response n2s ClaudeBranch (Responded st (Some data)) = Inr n \<and>
             analysisText n = txt"
    using normalize_message_reads [of data content "first" "txt"] by (simp add: read_response_def)
next
  assume "response_ok st \<and> get_prop (Some data) ''choices'' = Inr content \<and>
    get_first content = Inr first \<and> get_prop first ''message'' = Inr msg \<and>
    get_prop msg ''content'' = Inr txt"
  then show "\<exists>n. read_response n2s OpenRouterBranch (Responded st (Some data)) = Inr n \<and>
             analysisText n = txt"
    using normalize_chat_reads [of data content "first" msg "txt"] by (simp add: read_response_def)
next
  assume "body (reply (analyze rt reqBody)) = SuccessBody s"
  from analyze_success [OF this] obtain p c k n i out tot where
    h: "request_provider reqBody = JStr p" "map_of PROVIDERS p = Some c"
      "calls (analyze rt reqBody) = [upstream_request rt reqBody p c k]"
      "read_response (number_to_string rt) (branch_of p)
             (fetch rt (upstream_request rt reqBody p c k)) = Inr n"
      "s = success_reply rt c n i out tot"
    by blast
  from read_response_Inr [OF h(4)] obtain st data where
    d: "fetch rt (upstream_request rt reqBody p c k) = Responded st (Some data)"
      "response_ok st" "normalize (branch_of p) data = Inr n"
    by blast
  from h(5) have a: "analysis s = analysisText n" by (simp add: success_reply_def)
  show "\<exists>p c req st data content first msg.
           request_provider reqBody = JStr p \<and> map_of PROVIDERS p = Some c \<and>
           calls (analyze rt reqBody) = [req] \<and> fetch rt req = Responded st (Some data) \<and> response_ok st \<and>
           (p = ''claude'' \<longrightarrow>
              get_prop (Some data) ''content'' = Inr content \<and> get_first content = Inr first \<and>
              get_prop first ''text'' = Inr (analysis s)) \<and>
           (p \<noteq> ''claude'' \<longrightarrow>
              get_prop (Some data) ''choices'' = Inr content \<and> get_first content = Inr first \<and>
              get_prop first ''message'' = Inr msg \<and>
              get_prop msg ''content'' = Inr (analysis s))"
  proof (cases "p = ''claude''")
    case True
    with d(3) have "normalize_message data = Inr n" by (simp add: branch_of_def)
    from normalize_message_text [OF this] a True h d show ?thesis by auto
  next
    case False
    with d(3) have "normalize_chat data = Inr n" by (simp add: branch_of_def)
    from normalize_chat_text [OF this] a False h d show ?thesis by auto
  qed
qed (simp_all add: claude_request_def openrouter_request_def)


theorem registry_dispatch_witness:
  "select_branch (JStr ''openrouter_gpt4'') = Inr (Some OpenRouterBranch) \<and>
   select_branch (JStr ''claude'') = Inr (Some ClaudeBranch) \<and>
   calls (analyze sample_runtime sample_request)
     = [claude_request (snd (hd PROVIDERS)) ''sk-ant-test'' ''prompt''] \<and>
   map_of (headers (claude_request (snd (hd PROVIDERS)) ''sk-ant-test'' ''prompt'')) ''x-api-key''
     = Some ''sk-ant-test'' \<and>
   map_sum id analysisText
     (fst (dispatch sample_runtime (JStr ''claude'') (Config (snd (hd PROVIDERS)))
             ''sk-ant-test'' ''prompt''))
     = Inr (Some (JStr ''Report body'')) \<and>
   map_option analysis (reply_success (analyze sample_runtime sample_request))
     = Some (Some (JStr ''Report body'')) \<and>
   map_option analysis (reply_success (analyze sample_runtime sample_chat_request))
     = Some (Some (JStr ''Report body''))"
proof -
  let ?c = "snd (hd PROVIDERS)"
  let ?g = "snd (PROVIDERS ! 2)"
  let ?req = "claude_request ?c ''sk-ant-test'' ''prompt''"
  let ?req' = "openrouter_request sample_env ?g ''sk-or-test'' ''prompt''"
  let ?first = "Some (JObj [(''type'', JStr ''text''), (''text'', JStr ''Report body'')])"
  let ?content = "Some (JArr [JObj [(''type'', JStr ''text''), (''text'', JStr ''Report body'')]])"
  have v: "valid_request sample_request" "request_provider sample_request = JStr ''claude''"
    "request_provider sample_chat_request = JStr ''openrouter_gpt4''"
    by (simp_all add: valid_request_def request_provider_def sample_request_def
        sample_chat_request_def own_property_def)
  have c: "map_of PROVIDERS ''claude'' = Some ?c"
    by (simp add: PROVIDERS_def)
  have k: "env sample_runtime (envKey ?c) = Some ''sk-ant-test''"
    by (simp add: sample_runtime_def sample_env_def PROVIDERS_def)
  have b: "build_prompt sample_runtime (get_optional (Some sample_request) ''responses'') = ''prompt''"
    "env sample_runtime = sample_env"
    by (simp_all add: sample_runtime_def)
  have m: "(''openrouter_gpt4'', ?g) \<in> set PROVIDERS" "(''claude'', ?c) \<in> set PROVIDERS"
    by (simp_all add: PROVIDERS_def)
  have cs': "calls (analyze sample_runtime sample_chat_request) = [?req']"
    by (simp add: run_defs sample_chat_request_def)
  have f: "fetch sample_runtime ?req = Responded 200 (Some sample_message_body)"
    "fetch sample_runtime ?req' = Responded 200 (Some sample_chat_body)"
    by (simp_all add: sample_runtime_def sample_fetch_def claude_request_def
        openrouter_request_def PROVIDERS_def)
  have p: "response_ok 200" "get_prop (Some sample_message_body) ''content'' = Inr ?content"
    "get_first ?content = Inr ?first" "get_prop ?first ''text'' = Inr (Some (JStr ''Report body''))"
    by (simp_all add: response_ok_def sample_message_body_def own_property_def)
  note rd = registry_dispatch [of sample_env ?c "''sk-ant-test''" "''prompt''"
      sample_request "''claude''" sample_runtime 200 sample_message_body ?content ?first
      "Some (JStr ''Report body'')" "number_to_string sample_runtime" None sample_success]
  note rd' = registry_dispatch [of sample_env ?g "''sk-or-test''" "''prompt''"
      sample_chat_request "''openrouter_gpt4''" sample_runtime 200 sample_chat_body None None
      None "number_to_string sample_runtime" None chat_success]
  note t = rd [THEN conjunct2, THEN conjunct2]
  note u = t [THEN conjunct2, THEN conjunct2]
  from rd [THEN conjunct1]
  have r: "\<forall>(p, c) \<in> set PROVIDERS. select_branch (JStr p) = Inr (Some (branch_of p))"
    by blast
  from r m have sb: "select_branch (JStr ''openrouter_gpt4'') = Inr (Some OpenRouterBranch)"
    "select_branch (JStr ''claude'') = Inr (Some ClaudeBranch)"
    by (auto simp: branch_of_def)
  from rd [THEN conjunct2, THEN conjunct1]
  have h: "map_of (headers ?req) ''x-api-key'' = Some ''sk-ant-test''"
    by simp
  from t [THEN conjunct1] v c k b have cs0: "calls (analyze sample_runtime sample_request) = [?req]"
    by (simp add: branch_of_def)
  from t [THEN conjunct2, THEN conjunct1] c b f
  have d: "dispatch sample_runtime (JStr ''claude'') (Config ?c) ''sk-ant-test'' ''prompt''
      = (read_response (number_to_string sample_runtime) ClaudeBranch
           (Responded 200 (Some sample_message_body)), [?req])"
    by (simp add: branch_of_def)
  from u [THEN conjunct1] p
  obtain n where "read_response (number_to_string sample_runtime) ClaudeBranch
      (Responded 200 (Some sample_message_body)) = Inr n" "analysisText n = Some (JStr ''Report body'')"
    by blast
  with d have a0: "map_sum id analysisText
     (fst (dispatch sample_runtime (JStr ''claude'') (Config ?c) ''sk-ant-test'' ''prompt''))
     = Inr (Some (JStr ''Report body''))"
    by simp
  from u [THEN conjunct2, THEN conjunct2] sample_run
  obtain p c' req st data content f1 where
    "request_provider sample_request = JStr p" "map_of PROVIDERS p = Some c'"
    "calls (analyze sample_runtime sample_request) = [req]"
    "fetch sample_runtime req = Responded st (Some data)"
    "p = ''claude'' \<longrightarrow>
       get_prop (Some data) ''content'' = Inr content \<and> get_first content = Inr f1 \<and>
       get_prop f1 ''text'' = Inr (analysis sample_success)"
    by blast
  with v cs0 f p have a1: "analysis sample_success = Some (JStr ''Report body'')"
    by auto
  from rd' [THEN conjunct2, THEN conjunct2, THEN conjunct2, THEN conjunct2, THEN conjunct2,
      THEN conjunct2] chat_run
  obtain p c' req st data content f1 m1 where
    "request_provider sample_chat_request = JStr p" "map_of PROVIDERS p = Some c'"
    "calls (analyze sample_runtime sample_chat_request) = [req]"
    "fetch sample_runtime req = Responded st (Some data)"
    "p \<noteq> ''claude'' \<longrightarrow>
       get_prop (Some data) ''choices'' = Inr content \<and> get_first content = Inr f1 \<and>
       get_prop f1 ''message'' = Inr m1 \<and> get_prop m1 ''content'' = Inr (analysis chat_success)"
    by blast
  with v cs' f have a2: "analysis chat_success = Some (JStr ''Report body'')"
    by (auto simp: sample_chat_body_def own_property_def)
  from h cs0 sb a0 a1 a2 sample_run chat_run show ?thesis
    by (simp add: reply_success_def)
qed

end
